theory Spec2Isabelle
  imports Main
begin

section \<open>The auto-tagger of szurubooru-toolkit (scripts/auto_tagger.py)\<close>

text \<open>
  The script is sequential glue around collaborators that live outside the file: the
  post server, the reverse-image search client (SauceNAO), the local classifier
  (Deepbooru) and a few helpers of \<^verbatim>\<open>szurubooru_toolkit.utils\<close>. The model keeps the
  control flow of the file as it is written. Every collaborator is a field of an
  environment record (an answer for each call), every effect the file has on the outside
  world is an event appended to a trace, every exception the file itself can raise is
  a value. Strings are ASCII character lists.
\<close>

subsection \<open>Python's string operations used by the script\<close>

text \<open>\<^verbatim>\<open>s.startswith(p)\<close>\<close>

fun startswith :: "string \<Rightarrow> string \<Rightarrow> bool" where
  "startswith s [] = True"
| "startswith [] (p # ps) = False"
| "startswith (c # cs) (p # ps) = (c = p \<and> startswith cs ps)"

text \<open>\<^verbatim>\<open>sub in s\<close> for strings: \<open>sub\<close> occurs in \<open>s\<close> as a contiguous block.\<close>

fun str_in :: "string \<Rightarrow> string \<Rightarrow> bool" where
  "str_in sub [] = (sub = [])"
| "str_in sub (c # cs) = (startswith (c # cs) sub \<or> str_in sub cs)"

text \<open>
  \<^verbatim>\<open>s.replace(old, new)\<close>: the occurrences of \<open>old\<close> are replaced from left to right
  without overlap; an empty \<open>old\<close> matches before every character and at the end.
\<close>

function replace :: "string \<Rightarrow> string \<Rightarrow> string \<Rightarrow> string" where
  "replace old new s =
     (if old = [] then new @ concat (map (\<lambda>c. c # new) s)
      else if s = [] then []
      else if startswith s old then new @ replace old new (drop (length old) s)
      else hd s # replace old new (tl s))"
  by pat_completeness auto
termination
  by (relation "measure (\<lambda>(old, new, s). length s)") auto

declare replace.simps [simp del]



text \<open>\<^verbatim>\<open>delimiter.join(parts)\<close>\<close>

fun join :: "string \<Rightarrow> string list \<Rightarrow> string" where
  "join d [] = []"
| "join d [x] = x"
| "join d (x # y # ys) = x @ d @ join d (y # ys)"

text \<open>Duplicates removed, the first occurrence of each element kept in place.\<close>

fun dedup :: "'a list \<Rightarrow> 'a list" where
  "dedup [] = []"
| "dedup (x # xs) = x # dedup (filter (\<lambda>y. y \<noteq> x) xs)"

text \<open>
  Modelled from the spec: \<^verbatim>\<open>collect_sources\<close> of \<^verbatim>\<open>szurubooru_toolkit.utils\<close> is
  imported by the script and is not part of the source at hand. The spec describes its
  result as the "deduplicated, order-preserving concatenation" of its arguments, the
  source field being a "newline-delimited list of source strings".
\<close>

definition collect_sources :: "string list \<Rightarrow> string" where
  "collect_sources srcs = join ''\<newline>'' (dedup srcs)"

subsection \<open>The classifier's source marker (lines 241 to 246)\<close>

text \<open>
  \<^verbatim>\<open>
  if 'DeepBooru' in post.source:
      post.source = post.source.replace('DeepBooru\n', '')
      post.source = post.source.replace('\nDeepBooru', '')
  if 'Deepbooru' not in post.source:
      post.source = collect_sources(post.source, 'Deepbooru')
  \<close>
  The marker that is removed is spelt \<open>DeepBooru\<close>, the one that is added \<open>Deepbooru\<close>.
\<close>

text \<open>Lines 241 to 243.\<close>

definition remove_old_marker :: "string \<Rightarrow> string" where
  "remove_old_marker src =
     (if str_in ''DeepBooru'' src
      then replace ''\<newline>DeepBooru'' [] (replace ''DeepBooru\<newline>'' [] src)
      else src)"

text \<open>Lines 245 and 246.\<close>

definition add_marker :: "string \<Rightarrow> string" where
  "add_marker src =
     (if \<not> str_in ''Deepbooru'' src then collect_sources [src, ''Deepbooru''] else src)"

definition normalize_source :: "string \<Rightarrow> string" where
  "normalize_source src = add_marker (remove_old_marker src)"

text \<open>
  \<^verbatim>\<open>s.splitlines()\<close> on the ASCII line boundaries: line feed, carriage return (with a
  following line feed taken as part of the same break), vertical tab, form feed and the
  file, group and record separators. No empty last line is produced.
\<close>

definition is_linebreak :: "char \<Rightarrow> bool" where
  "is_linebreak c = (c \<in> set [CHR 0x0A, CHR 0x0B, CHR 0x0C, CHR 0x1C, CHR 0x1D, CHR 0x1E])"

fun splitlines_from :: "string \<Rightarrow> string \<Rightarrow> string list" where
  "splitlines_from acc [] = (if acc = [] then [] else [rev acc])"
| "splitlines_from acc [c] =
     (if c = CHR 0x0D \<or> is_linebreak c then [rev acc] else [rev (c # acc)])"
| "splitlines_from acc (c # d # ds) =
     (if c = CHR 0x0D \<and> d = CHR 0x0A then rev acc # splitlines_from [] ds
      else if c = CHR 0x0D \<or> is_linebreak c then rev acc # splitlines_from [] (d # ds)
      else splitlines_from (c # acc) (d # ds))"

definition splitlines :: "string \<Rightarrow> string list" where
  "splitlines s = splitlines_from [] s"

text \<open>\<^verbatim>\<open>s.split(',')\<close>: always at least one field.\<close>

fun split_from :: "char \<Rightarrow> string \<Rightarrow> string \<Rightarrow> string list" where
  "split_from sep acc [] = [rev acc]"
| "split_from sep acc (c # cs) =
     (if c = sep then rev acc # split_from sep [] cs else split_from sep (c # acc) cs)"

definition split_comma :: "string \<Rightarrow> string list" where
  "split_comma s = split_from (CHR '','') [] s"

text \<open>\<^verbatim>\<open>s.isnumeric()\<close> on ASCII strings: non-empty and decimal digits only.\<close>

definition isnumeric :: "string \<Rightarrow> bool" where
  "isnumeric s = (s \<noteq> [] \<and> list_all (\<lambda>c. c \<in> set ''0123456789'') s)"

subsection \<open>Data\<close>

record tag =
  primary_name :: string
  category :: string

record post =
  post_id :: nat
  content_url :: string
  tags :: "string list"
  source :: string
  safety :: string
  relations :: "nat list"

text \<open>
  The entries of \<^verbatim>\<open>config.szurubooru\<close> and \<^verbatim>\<open>config.auto_tagger\<close> that steer the
  control flow. \<^verbatim>\<open>saucenao_enabled\<close> and \<^verbatim>\<open>hide_progress\<close> are written by the script.
\<close>

record config =
  public :: bool
  saucenao_enabled :: bool
  deepbooru_enabled :: bool
  deepbooru_forced :: bool
  hide_progress :: bool

record counters =
  tagged :: int
  deepbooru :: int
  untagged :: int
  skipped :: int

text \<open>The answer of one call of \<^verbatim>\<open>sauce.get_metadata\<close>.\<close>

record metadata =
  found_tags :: "string list"
  found_source :: string
  rating :: string
  limit_short :: int
  limit_long :: int

text \<open>
  What the run does to the outside world, in order: the calls of the collaborators, the
  sleeps, the files removed, the log lines of level warning and above and the final
  summary. Debug and info lines are left out.
\<close>

datatype event =
    GetPosts string
  | NextPost nat
  | Download string
  | Shrink string
  | Search nat
  | Sleep nat
  | Classify nat
  | GetPost nat
  | Scrape string
  | Remove string
  | UpdatePost post
  | Warning string
  | Error string
  | Critical string
  | Summary int counters

datatype py_error = TypeError | UnboundLocalError | StopIteration | UpdateFailed

record state =
  conf :: config
  stats :: counters
  trace :: "event list"

text \<open>
  The collaborators, one answer for each call. The search client and the classifier
  are asked at a moment of the run (the index of the loop iteration), so that their
  answers may change over time, as the quota does. \<open>get_posts\<close> gives the total the
  generator yields first and the posts it yields after it; \<open>update_post\<close> tells whether
  the server accepts the patch; \<open>set_order\<close> is the order in which Python lists the
  elements of a set of strings.
\<close>

record env =
  get_posts :: "string \<Rightarrow> bool \<Rightarrow> int \<times> post list"
  get_metadata :: "nat \<Rightarrow> bool \<Rightarrow> string \<Rightarrow> string \<Rightarrow> metadata"
  tag_image :: "nat \<Rightarrow> string option \<Rightarrow> string list \<times> string"
  getPost :: "nat \<Rightarrow> tag list"
  sanitize_tags :: "string list \<Rightarrow> string list"
  scrape_sankaku :: "string \<Rightarrow> string list \<times> string"
  update_post :: "post \<Rightarrow> bool"
  urlretrieve :: "string \<Rightarrow> string"
  getsize :: "string \<Rightarrow> nat"
  path_exists :: "string \<Rightarrow> bool"
  set_order :: "string list \<Rightarrow> string list"

definition emit :: "event \<Rightarrow> state \<Rightarrow> state" where
  "emit ev st = st\<lparr>trace := trace st @ [ev]\<rparr>"

text \<open>
  Modelled from the spec: \<^verbatim>\<open>statistics\<close> of \<^verbatim>\<open>szurubooru_toolkit.utils\<close> is not part
  of the source at hand. The spec describes process-wide counters (tagged,
  classifier-tagged, untagged, skipped); the script calls it with the amount to add to
  one of them.
\<close>

definition statistics :: "int \<Rightarrow> int \<Rightarrow> int \<Rightarrow> state \<Rightarrow> state" where
  "statistics t d u st =
     st\<lparr>stats := (stats st)\<lparr>tagged := tagged (stats st) + t,
                              deepbooru := deepbooru (stats st) + d,
                              untagged := untagged (stats st) + u\<rparr>\<rparr>"

text \<open>\<^verbatim>\<open>list(set().union(a, b, ...))\<close>: the distinct elements, in the order of the set.\<close>

definition py_union :: "env \<Rightarrow> string list list \<Rightarrow> string list" where
  "py_union e xss = set_order e (remdups (concat xss))"

text \<open>\<^verbatim>\<open>str(tmp_media_path)\<close>\<close>

definition str_of_path :: "string option \<Rightarrow> string" where
  "str_of_path tmp = (case tmp of None \<Rightarrow> ''None'' | Some f \<Rightarrow> f)"

subsection \<open>The arguments (parse_args, lines 22 to 81)\<close>

record cli =
  cli_sankaku_url :: "string option"
  cli_query :: string
  cli_add_tags :: "string option"
  cli_remove_tags :: "string option"

text \<open>
  The arguments as \<^verbatim>\<open>main\<close> uses them. An absent or empty list of tags is \<open>[]\<close>:
  the script only ever tests these lists for truth.
\<close>

record args =
  sankaku_url :: "string option"
  query :: string
  add_tags :: "string list"
  remove_tags :: "string list"

definition split_tags :: "string option \<Rightarrow> string list" where
  "split_tags t = (case t of None \<Rightarrow> [] | Some s \<Rightarrow> if s = [] then [] else split_comma s)"

text \<open>\<open>None\<close> is the call of \<^verbatim>\<open>exit()\<close> on a query with the token \<^verbatim>\<open>type:\<close>.\<close>

definition parse_args :: "cli \<Rightarrow> state \<Rightarrow> args option \<times> state" where
  "parse_args c st =
     (if str_in ''type:'' (cli_query c)
      then (None, emit (Critical ''Search token \"type\" is not allowed in queries!'') st)
      else
        (let st1 = (if str_in [CHR 0x27] (cli_query c)
                    then emit (Warning ''Your query contains single quotes'') st else st)
         in (Some \<lparr>sankaku_url = cli_sankaku_url c, query = cli_query c,
                    add_tags = split_tags (cli_add_tags c),
                    remove_tags = split_tags (cli_remove_tags c)\<rparr>, st1)))"

subsection \<open>The search results (parse_saucenao_results, lines 84 to 111)\<close>

text \<open>
  One call of the search client, then the sleep of 35 seconds when only the short quota
  is used up, the counter of tagged posts, and the switch to the classifier when the
  long quota is used up. The result is \<^verbatim>\<open>(tags, source, rating, limit_reached)\<close>.
\<close>

definition parse_saucenao_results ::
  "env \<Rightarrow> nat \<Rightarrow> post \<Rightarrow> string option \<Rightarrow> state
     \<Rightarrow> (string list \<times> string \<times> string \<times> bool) \<times> state" where
  "parse_saucenao_results e idx p tmp_media_path st =
     (let m = get_metadata e idx (public (conf st)) (content_url p) (str_of_path tmp_media_path);
          st1 = emit (Search (post_id p)) st;
          src = collect_sources (splitlines (found_source m) @ splitlines (source p));
          limit_reached = (limit_long m = 0);
          st2 = (if \<not> limit_long m = 0
                 then (if limit_short m = 0
                       then emit (Sleep 35)
                              (emit (Warning ''Short limit reached for SauceNAO, trying again in 35s...'') st1)
                       else st1)
                 else st1);
          st3 = (if found_tags m \<noteq> [] then statistics 1 0 0 st2 else st2);
          st4 = (if limit_reached \<and> deepbooru_enabled (conf st3)
                 then st3\<lparr>conf := (conf st3)\<lparr>saucenao_enabled := False\<rparr>\<rparr>
                 else st3)
      in ((sanitize_tags e (found_tags m), src, rating m, limit_reached), st4))"

subsection \<open>The media file (download_media, lines 114 to 127)\<close>

definition download_media :: "env \<Rightarrow> string option \<Rightarrow> string \<Rightarrow> state \<Rightarrow> string \<times> state" where
  "download_media e tmp_media_path url st =
     (let (tmp, st1) = (case tmp_media_path of
                          None \<Rightarrow> (urlretrieve e url, emit (Download url) st)
                        | Some f \<Rightarrow> if f = [] then (urlretrieve e url, emit (Download url) st)
                                    else (f, st));
          st2 = (if getsize e tmp > 2000000 then emit (Shrink tmp) st1 else st1)
      in (tmp, st2))"

subsection \<open>The tags of related posts (set_tags_from_relations, lines 130 to 138)\<close>

text \<open>
  The inner loop over the tags of one related post. The test is the one of line 137:
  \<^verbatim>\<open>not relation_tag.category == 'default' or not relation_tag.category == 'meta'\<close>.
\<close>

fun copy_relation_tags :: "tag list \<Rightarrow> string list \<Rightarrow> string list" where
  "copy_relation_tags [] ts = ts"
| "copy_relation_tags (t # rest) ts =
     (if \<not> category t = ''default'' \<or> \<not> category t = ''meta''
      then copy_relation_tags rest (ts @ [primary_name t])
      else copy_relation_tags rest ts)"

fun relations_loop :: "env \<Rightarrow> nat list \<Rightarrow> post \<Rightarrow> state \<Rightarrow> post \<times> state" where
  "relations_loop e [] p st = (p, st)"
| "relations_loop e (r # rs) p st =
     relations_loop e rs (p\<lparr>tags := copy_relation_tags (getPost e r) (tags p)\<rparr>)
       (emit (GetPost r) st)"

definition set_tags_from_relations :: "env \<Rightarrow> post \<Rightarrow> state \<Rightarrow> post \<times> state" where
  "set_tags_from_relations e p st = relations_loop e (relations p) p st"

subsection \<open>The loop over the posts (main, lines 199 to 269)\<close>

text \<open>The local variables of one iteration.\<close>

record frame =
  cur_post :: post
  cur_tags :: "string list"
  tmp_file :: "string option"
  limit_reached :: bool

text \<open>Lines 209 to 214: the media file is fetched for a private server or for the classifier.\<close>

definition fetch_phase :: "env \<Rightarrow> string option \<Rightarrow> post \<Rightarrow> state \<Rightarrow> frame \<times> state" where
  "fetch_phase e tmp_media_path p st =
     (if \<not> public (conf st) \<or> deepbooru_enabled (conf st)
      then (let (f, st1) = download_media e tmp_media_path (content_url p) st
            in (\<lparr>cur_post = p, cur_tags = [], tmp_file = Some f, limit_reached = False\<rparr>, st1))
      else (\<lparr>cur_post = p, cur_tags = [], tmp_file = None, limit_reached = False\<rparr>, st))"

text \<open>Lines 216 to 228.\<close>

definition search_phase :: "env \<Rightarrow> args \<Rightarrow> nat \<Rightarrow> frame \<Rightarrow> state \<Rightarrow> frame \<times> state" where
  "search_phase e a idx fr st =
     (if saucenao_enabled (conf st)
      then (let ((ts, src, rt, lim), st1) =
                   parse_saucenao_results e idx (cur_post fr) (tmp_file fr) st;
                p1 = (cur_post fr)\<lparr>source := src, safety := rt\<rparr>;
                p2 = (if add_tags a \<noteq> []
                      then p1\<lparr>tags := py_union e [tags p1, ts, add_tags a]\<rparr>
                      else p1\<lparr>tags := py_union e [tags p1, ts]\<rparr>)
            in (fr\<lparr>cur_post := p2, cur_tags := ts, limit_reached := lim\<rparr>, st1))
      else (fr\<lparr>limit_reached := False\<rparr>, st))"

text \<open>
  Lines 230 to 253. The name \<^verbatim>\<open>deepbooru\<close> is bound (line 173) only when the classifier
  is enabled; line 231 reads it whenever the forced mode is on.
\<close>

definition classify_phase ::
  "env \<Rightarrow> args \<Rightarrow> nat \<Rightarrow> frame \<Rightarrow> state \<Rightarrow> (py_error \<times> state) + (frame \<times> state)" where
  "classify_phase e a idx fr st =
     (if (cur_tags fr = [] \<and> deepbooru_enabled (conf st)) \<or> deepbooru_forced (conf st)
      then (if \<not> deepbooru_enabled (conf st) then Inl (UnboundLocalError, st)
            else
              (let (ts, rt) = tag_image e idx (tmp_file fr);
                   st1 = emit (Classify (post_id (cur_post fr))) st;
                   p1 = (cur_post fr)\<lparr>safety := rt\<rparr>;
                   (p2, st2) = (if relations p1 \<noteq> [] then set_tags_from_relations e p1 st1
                                else (p1, st1));
                   p3 = (if add_tags a \<noteq> []
                         then p2\<lparr>tags := py_union e [tags p2, ts, add_tags a]\<rparr>
                         else p2\<lparr>tags := py_union e [tags p2, ts]\<rparr>);
                   p4 = p3\<lparr>source := normalize_source (source p3)\<rparr>;
                   st3 = (if ts \<noteq> [] then statistics 0 1 0 st2 else statistics 0 0 1 st2)
               in Inr (fr\<lparr>cur_post := p4, cur_tags := ts\<rparr>, st3)))
      else if cur_tags fr = [] then Inr (fr, statistics 0 0 1 st)
      else Inr (fr, st))"

text \<open>
  Lines 255 to 257: \<^verbatim>\<open>os.path.exists(None)\<close> raises a TypeError, which only a path
  that was fetched avoids.
\<close>

definition cleanup_phase :: "env \<Rightarrow> frame \<Rightarrow> state \<Rightarrow> (py_error \<times> state) + state" where
  "cleanup_phase e fr st =
     (case tmp_file fr of
        None \<Rightarrow> Inl (TypeError, st)
      | Some f \<Rightarrow> if path_exists e f then Inr (emit (Remove f) st) else Inr st)"

text \<open>
  Line 260: \<^verbatim>\<open>[post.tags.remove(tag) for tag in remove_tags if tag in post.tags]\<close>,
  each removal taking the first occurrence.
\<close>

fun remove_user_tags :: "string list \<Rightarrow> string list \<Rightarrow> string list" where
  "remove_user_tags [] ts = ts"
| "remove_user_tags (r # rs) ts =
     (if r \<in> set ts then remove_user_tags rs (remove1 r ts) else remove_user_tags rs ts)"

text \<open>
  Line 264: \<^verbatim>\<open>[post.tags.remove(tag) for tag in post.tags if tag == 'deepbooru' or tag == 'tagme']\<close>.
  The list is changed while it is iterated: the iterator holds an index \<open>i\<close>, reads the
  element at \<open>i\<close> as long as \<open>i\<close> is below the current length, and moves on by one
  whether or not an element was removed.
\<close>

function remove_placeholders :: "nat \<Rightarrow> string list \<Rightarrow> string list" where
  "remove_placeholders i ts =
     (if i < length ts
      then (if ts ! i = ''deepbooru'' \<or> ts ! i = ''tagme''
            then remove_placeholders (Suc i) (remove1 (ts ! i) ts)
            else remove_placeholders (Suc i) ts)
      else ts)"
  by pat_completeness auto
termination
  by (relation "measure (\<lambda>(i, ts). length ts - i)") (auto simp: length_remove1)

declare remove_placeholders.simps [simp del]

text \<open>Lines 259 to 265: the tags are edited and the post is patched when \<^verbatim>\<open>tags\<close> is not empty.\<close>

definition patch_phase ::
  "env \<Rightarrow> args \<Rightarrow> frame \<Rightarrow> state \<Rightarrow> (py_error \<times> state) + (frame \<times> state)" where
  "patch_phase e a fr st =
     (let p1 = (if remove_tags a \<noteq> []
                then (cur_post fr)\<lparr>tags := remove_user_tags (remove_tags a) (tags (cur_post fr))\<rparr>
                else cur_post fr)
      in if cur_tags fr \<noteq> []
         then (let p2 = p1\<lparr>tags := remove_placeholders 0 (tags p1)\<rparr>;
                   st1 = emit (UpdatePost p2) st
               in if update_post e p2 then Inr (fr\<lparr>cur_post := p2\<rparr>, st1)
                  else Inl (UpdateFailed, st1))
         else Inr (fr\<lparr>cur_post := p1\<rparr>, st))"

datatype step = Continue state | Break state | Raised py_error state

text \<open>Lines 267 to 269.\<close>

definition limit_phase :: "int \<Rightarrow> nat \<Rightarrow> frame \<Rightarrow> state \<Rightarrow> step" where
  "limit_phase total_posts idx fr st =
     (if limit_reached fr \<and> \<not> deepbooru_enabled (conf st)
      then Break (statistics 0 0 (total_posts - int idx - 1) st)
      else Continue st)"

text \<open>One iteration, lines 209 to 269.\<close>

definition loop_body ::
  "env \<Rightarrow> args \<Rightarrow> string option \<Rightarrow> int \<Rightarrow> nat \<Rightarrow> post \<Rightarrow> state \<Rightarrow> step" where
  "loop_body e a tmp_media_path total_posts idx p st =
     (let (fr1, st1) = fetch_phase e tmp_media_path p st;
          (fr2, st2) = search_phase e a idx fr1 st1
      in case classify_phase e a idx fr2 st2 of
           Inl (err, st3) \<Rightarrow> Raised err st3
         | Inr (fr3, st3) \<Rightarrow>
             (case cleanup_phase e fr3 st3 of
                Inl (err, st4) \<Rightarrow> Raised err st4
              | Inr st4 \<Rightarrow>
                  (case patch_phase e a fr3 st4 of
                     Inl (err, st5) \<Rightarrow> Raised err st5
                   | Inr (fr5, st5) \<Rightarrow> limit_phase total_posts idx fr5 st5)))"

text \<open>
  The \<^verbatim>\<open>for\<close> loop over the posts the server yields, with the index of
  \<^verbatim>\<open>enumerate\<close>. The result is the exception that ended the loop, if any.
\<close>

fun posts_loop ::
  "env \<Rightarrow> args \<Rightarrow> string option \<Rightarrow> int \<Rightarrow> nat \<Rightarrow> post list \<Rightarrow> state
     \<Rightarrow> py_error option \<times> state" where
  "posts_loop e a tmp_media_path total_posts idx [] st = (None, st)"
| "posts_loop e a tmp_media_path total_posts idx (p # ps) st =
     (case loop_body e a tmp_media_path total_posts idx p (emit (NextPost (post_id p)) st) of
        Continue st1 \<Rightarrow> posts_loop e a tmp_media_path total_posts (Suc idx) ps st1
      | Break st1 \<Rightarrow> (None, st1)
      | Raised err st1 \<Rightarrow> (Some err, st1))"

subsection \<open>The run (main, lines 141 to 279)\<close>

text \<open>Lines 184 to 197: the single post tagged from a Sankaku URL.\<close>

definition sankaku_path :: "env \<Rightarrow> string \<Rightarrow> string \<Rightarrow> post list \<Rightarrow> state \<Rightarrow> py_error option \<times> state" where
  "sankaku_path e url q posts st =
     (if isnumeric q
      then (case posts of
              [] \<Rightarrow> (Some StopIteration, st)
            | p # ps \<Rightarrow>
                (let st1 = emit (Scrape url) (emit (NextPost (post_id p)) st);
                     (ts, rt) = scrape_sankaku e url;
                     p1 = p\<lparr>tags := ts, safety := rt, source := url\<rparr>;
                     st2 = emit (UpdatePost p1) st1
                 in if update_post e p1 then (None, statistics 1 0 0 st2)
                    else (None, emit (Error ''Could not tag post with Sankaku'')
                                  (statistics 0 0 1 st2))))
      else (None, emit (Critical ''Can only tag a single post if you specify --sankaku_url.'') st))"

text \<open>
  How the call of \<^verbatim>\<open>main\<close> ends: it returns, the process exits through \<^verbatim>\<open>exit()\<close>, or
  the decorator \<^verbatim>\<open>logger.catch\<close> of line 141 catches an exception, logs it and returns.
\<close>

datatype outcome = Returned | Exited | Caught py_error

definition truthy :: "string option \<Rightarrow> bool" where
  "truthy s = (case s of None \<Rightarrow> False | Some x \<Rightarrow> x \<noteq> [])"

text \<open>
  \<^verbatim>\<open>main(post_id, tmp_media_path)\<close>. The command line is read only when no post id is
  passed in (lines 159 to 165).
\<close>

definition main :: "env \<Rightarrow> cli \<Rightarrow> string option \<Rightarrow> string option \<Rightarrow> state \<Rightarrow> outcome \<times> state" where
  "main e c post_id_arg tmp_media_path st =
     (let from_upload_media = truthy post_id_arg;
          st1 = (if \<not> from_upload_media then st
                 else st\<lparr>conf := (conf st)\<lparr>hide_progress := True\<rparr>\<rparr>)
      in if \<not> saucenao_enabled (conf st1) \<and> \<not> deepbooru_enabled (conf st1) then (Exited, st1)
         else
           (case (if \<not> from_upload_media then parse_args c st1
                  else (Some \<lparr>sankaku_url = None, query = str_of_path post_id_arg,
                               add_tags = [], remove_tags = []\<rparr>, st1)) of
              (None, st2) \<Rightarrow> (Exited, st2)
            | (Some a, st2) \<Rightarrow>
                (let (total_posts, posts) = get_posts e (query a) from_upload_media;
                     st3 = emit (GetPosts (query a)) st2;
                     (exc, st4) = (case sankaku_url a of
                                     None \<Rightarrow> posts_loop e a tmp_media_path total_posts 0 posts st3
                                   | Some url \<Rightarrow>
                                       if url \<noteq> [] then sankaku_path e url (query a) posts st3
                                       else posts_loop e a tmp_media_path total_posts 0 posts st3)
                 in case exc of
                      Some err \<Rightarrow> (Caught err, st4)
                    | None \<Rightarrow>
                        if \<not> from_upload_media
                        then (Returned, emit (Summary total_posts (stats st4)) st4)
                        else (Returned, st4))))"

subsection \<open>Reading a run\<close>

text \<open>The state an iteration ends in, and projections of the trace.\<close>

fun step_state :: "step \<Rightarrow> state" where
  "step_state (Continue st) = st"
| "step_state (Break st) = st"
| "step_state (Raised err st) = st"

definition is_patch :: "event \<Rightarrow> bool" where
  "is_patch ev = (case ev of UpdatePost q \<Rightarrow> True | _ \<Rightarrow> False)"

definition is_search_or_sleep :: "event \<Rightarrow> bool" where
  "is_search_or_sleep ev = (case ev of Search i \<Rightarrow> True | Sleep n \<Rightarrow> True | _ \<Rightarrow> False)"

definition is_post_io :: "event \<Rightarrow> bool" where
  "is_post_io ev =
     (case ev of NextPost i \<Rightarrow> True | Download u \<Rightarrow> True | Remove f \<Rightarrow> True
               | UpdatePost q \<Rightarrow> True | _ \<Rightarrow> False)"


text \<open>The media file of an iteration and the answers the collaborators give in it.\<close>

definition media_path :: "env \<Rightarrow> string option \<Rightarrow> post \<Rightarrow> state \<Rightarrow> string option" where
  "media_path e tmp_media_path p st = tmp_file (fst (fetch_phase e tmp_media_path p st))"

definition search_answer :: "env \<Rightarrow> string option \<Rightarrow> nat \<Rightarrow> post \<Rightarrow> state \<Rightarrow> metadata" where
  "search_answer e tmp_media_path idx p st =
     get_metadata e idx (public (conf st)) (content_url p)
       (str_of_path (media_path e tmp_media_path p st))"

definition search_tags :: "env \<Rightarrow> string option \<Rightarrow> nat \<Rightarrow> post \<Rightarrow> state \<Rightarrow> string list" where
  "search_tags e tmp_media_path idx p st =
     (if saucenao_enabled (conf st)
      then sanitize_tags e (found_tags (search_answer e tmp_media_path idx p st)) else [])"

definition classifier_runs :: "env \<Rightarrow> string option \<Rightarrow> nat \<Rightarrow> post \<Rightarrow> state \<Rightarrow> bool" where
  "classifier_runs e tmp_media_path idx p st =
     ((search_tags e tmp_media_path idx p st = [] \<and> deepbooru_enabled (conf st))
      \<or> deepbooru_forced (conf st))"

definition classifier_tags :: "env \<Rightarrow> string option \<Rightarrow> nat \<Rightarrow> post \<Rightarrow> state \<Rightarrow> string list" where
  "classifier_tags e tmp_media_path idx p st =
     (if classifier_runs e tmp_media_path idx p st
      then fst (tag_image e idx (media_path e tmp_media_path p st)) else [])"

definition relation_tags :: "env \<Rightarrow> string option \<Rightarrow> nat \<Rightarrow> post \<Rightarrow> state \<Rightarrow> string list" where
  "relation_tags e tmp_media_path idx p st =
     (if classifier_runs e tmp_media_path idx p st
      then concat (map (\<lambda>r. map primary_name (getPost e r)) (relations p)) else [])"

text \<open>
  The tags that the comment of line 131 names: those of a category other than
  \<open>default\<close> and \<open>meta\<close>. \<open>copyable_relation_tags\<close> are the tags of this kind of the
  related posts, \<open>only_copyable_relations\<close> says that the related posts have no others.
\<close>

definition copyable :: "tag \<Rightarrow> bool" where
  "copyable tg = (category tg \<noteq> ''default'' \<and> category tg \<noteq> ''meta'')"

definition copyable_relation_tags ::
  "env \<Rightarrow> string option \<Rightarrow> nat \<Rightarrow> post \<Rightarrow> state \<Rightarrow> string list" where
  "copyable_relation_tags e tmp_media_path idx p st =
     (if classifier_runs e tmp_media_path idx p st
      then concat (map (\<lambda>r. map primary_name (filter copyable (getPost e r))) (relations p))
      else [])"

definition only_copyable_relations :: "env \<Rightarrow> post \<Rightarrow> bool" where
  "only_copyable_relations e p = list_all (\<lambda>r. list_all copyable (getPost e r)) (relations p)"

text \<open>The value of \<^verbatim>\<open>tags\<close> at line 263: what the last discovery step that ran has found.\<close>

definition last_found :: "env \<Rightarrow> string option \<Rightarrow> nat \<Rightarrow> post \<Rightarrow> state \<Rightarrow> string list" where
  "last_found e tmp_media_path idx p st =
     (if classifier_runs e tmp_media_path idx p st
      then classifier_tags e tmp_media_path idx p st
      else search_tags e tmp_media_path idx p st)"

text \<open>A set lists each of its elements once, in some order.\<close>

definition order_ok :: "env \<Rightarrow> bool" where
  "order_ok e = (\<forall>xs. distinct xs \<longrightarrow> distinct (set_order e xs) \<and> set (set_order e xs) = set xs)"

text \<open>The post that line 265 sends to the server, when it sends one.\<close>

definition edited_post :: "args \<Rightarrow> frame \<Rightarrow> post" where
  "edited_post a fr =
     (cur_post fr)\<lparr>tags := remove_placeholders 0
                               (remove_user_tags (remove_tags a) (tags (cur_post fr)))\<rparr>"

subsection \<open>A concrete run\<close>

text \<open>
  A private server with one post, the search client enabled and the classifier disabled.
  The search client finds one tag and has quota left, the classifier finds nothing.
\<close>

definition example_post :: post where
  "example_post = \<lparr>post_id = 1, content_url = ''https://booru.example/data/1.png'',
                    tags = [''tagme'', ''dog''], source = [], safety = ''safe'', relations = []\<rparr>"

definition example_config :: config where
  "example_config = \<lparr>public = False, saucenao_enabled = True, deepbooru_enabled = False,
                      deepbooru_forced = False, hide_progress = False\<rparr>"

definition example_state :: state where
  "example_state = \<lparr>conf = example_config,
                     stats = \<lparr>tagged = 0, deepbooru = 0, untagged = 0, skipped = 0\<rparr>,
                     trace = []\<rparr>"

definition example_metadata :: metadata where
  "example_metadata = \<lparr>found_tags = [''cat''], found_source = ''https://pixiv.example/1'',
                        rating = ''safe'', limit_short = 3, limit_long = 90\<rparr>"

definition example_env :: env where
  "example_env = \<lparr>get_posts = (\<lambda>q u. (1, [example_post])),
                   get_metadata = (\<lambda>idx pub url f. example_metadata),
                   tag_image = (\<lambda>idx f. ([], ''safe'')),
                   getPost = (\<lambda>i. []),
                   sanitize_tags = (\<lambda>ts. ts),
                   scrape_sankaku = (\<lambda>u. ([], ''safe'')),
                   update_post = (\<lambda>q. True),
                   urlretrieve = (\<lambda>u. ''/tmp/1.png''),
                   getsize = (\<lambda>f. 1000),
                   path_exists = (\<lambda>f. True),
                   set_order = (\<lambda>xs. xs)\<rparr>"

definition example_args :: args where
  "example_args = \<lparr>sankaku_url = None, query = ''tag-count:0'', add_tags = [], remove_tags = []\<rparr>"

definition example_cli :: cli where
  "example_cli = \<lparr>cli_sankaku_url = None, cli_query = ''tag-count:0'',
                   cli_add_tags = None, cli_remove_tags = None\<rparr>"

section \<open>Properties\<close>

subsection \<open>The source marker\<close>














subsection \<open>The phases of an iteration\<close>

lemma emit_simps [simp]:
  "trace (emit ev st) = trace st @ [ev]"
  "conf (emit ev st) = conf st"
  "stats (emit ev st) = stats st"
  by (simp_all add: emit_def)

lemma statistics_simps [simp]:
  "trace (statistics t d u st) = trace st"
  "conf (statistics t d u st) = conf st"
  "tagged (stats (statistics t d u st)) = tagged (stats st) + t"
  "deepbooru (stats (statistics t d u st)) = deepbooru (stats st) + d"
  "untagged (stats (statistics t d u st)) = untagged (stats st) + u"
  "skipped (stats (statistics t d u st)) = skipped (stats st)"
  by (simp_all add: statistics_def)

lemma fetch_phase_frame:
  assumes "fetch_phase e t p st = (fr, st')"
  shows "conf st' = conf st" and "stats st' = stats st"
    and "cur_post fr = p" and "cur_tags fr = []"
    and "(tmp_file fr = None) = (public (conf st) \<and> \<not> deepbooru_enabled (conf st))"
  using assms
  by (auto simp: fetch_phase_def download_media_def Let_def split: prod.splits if_splits option.splits)

lemma fetch_phase_trace:
  assumes "fetch_phase e t p st = (fr, st')"
    and "\<And>u. \<not> P (Download u)" and "\<And>f. \<not> P (Shrink f)"
  shows "filter P (trace st') = filter P (trace st)"
  using assms
  by (auto simp: fetch_phase_def download_media_def Let_def split: prod.splits if_splits option.splits)

lemma fetch_phase_public:
  assumes "fetch_phase e t p st = (fr, st')" "public (conf st)" "\<not> deepbooru_enabled (conf st)"
  shows "st' = st"
  using assms by (auto simp: fetch_phase_def)

lemma search_phase_off:
  assumes "\<not> saucenao_enabled (conf st)"
  shows "search_phase e a idx fr st = (fr\<lparr>limit_reached := False\<rparr>, st)"
  using assms by (simp add: search_phase_def)

lemma search_phase_conf:
  assumes "search_phase e a idx fr st = (fr', st')"
  shows "public (conf st') = public (conf st)"
    and "deepbooru_enabled (conf st') = deepbooru_enabled (conf st)"
    and "deepbooru_forced (conf st') = deepbooru_forced (conf st)"
    and "saucenao_enabled (conf st') \<Longrightarrow> saucenao_enabled (conf st)"
  using assms
  by (auto simp: search_phase_def parse_saucenao_results_def Let_def split: if_splits)

lemma search_phase_frame:
  assumes "search_phase e a idx fr st = (fr', st')"
  shows "tmp_file fr' = tmp_file fr"
    and "post_id (cur_post fr') = post_id (cur_post fr)"
    and "relations (cur_post fr') = relations (cur_post fr)"
    and "untagged (stats st') = untagged (stats st)"
    and "deepbooru (stats st') = deepbooru (stats st)"
  using assms
  by (auto simp: search_phase_def parse_saucenao_results_def Let_def split: if_splits)

lemma search_phase_trace:
  assumes "search_phase e a idx fr st = (fr', st')"
    and "\<And>i. \<not> P (Search i)" and "\<And>n. \<not> P (Sleep n)" and "\<And>m. \<not> P (Warning m)"
  shows "filter P (trace st') = filter P (trace st)"
  using assms
  by (auto simp: search_phase_def parse_saucenao_results_def Let_def split: if_splits)

text \<open>What the search step does when it runs, in terms of the answer m of the client.\<close>

lemma search_phase_on:
  assumes "search_phase e a idx fr st = (fr', st')" and "saucenao_enabled (conf st)"
    and "m = get_metadata e idx (public (conf st)) (content_url (cur_post fr)) (str_of_path (tmp_file fr))"
  shows "cur_tags fr' = sanitize_tags e (found_tags m)"
    and "limit_reached fr' = (limit_long m = 0)"
    and "tags (cur_post fr') = py_union e [tags (cur_post fr), sanitize_tags e (found_tags m), add_tags a]"
    and "saucenao_enabled (conf st') = (\<not> (limit_long m = 0 \<and> deepbooru_enabled (conf st)))"
    and "tagged (stats st') = tagged (stats st) + (if found_tags m \<noteq> [] then 1 else 0)"
    and "trace st' = trace st @ Search (post_id (cur_post fr)) #
           (if limit_long m \<noteq> 0 \<and> limit_short m = 0
            then [Warning ''Short limit reached for SauceNAO, trying again in 35s...'', Sleep 35]
            else [])"
  using assms
  by (auto simp: search_phase_def parse_saucenao_results_def Let_def py_union_def split: if_splits)

lemma copy_relation_tags_all: "copy_relation_tags rts ts = ts @ map primary_name rts"
  by (induction rts arbitrary: ts) auto

lemma relations_loop_result:
  "relations_loop e rs p st =
     (p\<lparr>tags := tags p @ concat (map (\<lambda>r. map primary_name (getPost e r)) rs)\<rparr>,
      st\<lparr>trace := trace st @ map GetPost rs\<rparr>)"
proof (induction rs arbitrary: p st)
  case Nil
  then show ?case by simp
next
  case (Cons r rs)
  then show ?case by (simp add: copy_relation_tags_all emit_def)
qed

lemma set_tags_from_relations_result:
  "set_tags_from_relations e p st =
     (p\<lparr>tags := tags p @ concat (map (\<lambda>r. map primary_name (getPost e r)) (relations p))\<rparr>,
      st\<lparr>trace := trace st @ map GetPost (relations p)\<rparr>)"
  by (simp add: set_tags_from_relations_def relations_loop_result)

lemma classify_phase_error:
  "classify_phase e a idx fr st = Inl (err, st') \<longleftrightarrow>
     (err = UnboundLocalError \<and> st' = st \<and> deepbooru_forced (conf st) \<and> \<not> deepbooru_enabled (conf st))"
  by (auto simp: classify_phase_def Let_def split: prod.splits if_splits)

lemma classify_phase_skip:
  assumes "\<not> deepbooru_forced (conf st)" and "cur_tags fr \<noteq> [] \<or> \<not> deepbooru_enabled (conf st)"
  shows "classify_phase e a idx fr st =
           Inr (fr, if cur_tags fr = [] then statistics 0 0 1 st else st)"
  using assms by (auto simp: classify_phase_def)

lemma classify_phase_conf:
  assumes "classify_phase e a idx fr st = Inr (fr', st')"
  shows "conf st' = conf st" and "tmp_file fr' = tmp_file fr"
    and "limit_reached fr' = limit_reached fr"
    and "post_id (cur_post fr') = post_id (cur_post fr)"
    and "tagged (stats st') = tagged (stats st)"
  using assms
  by (auto simp: classify_phase_def Let_def set_tags_from_relations_result
           split: prod.splits if_splits)

lemma classify_phase_trace:
  assumes "classify_phase e a idx fr st = Inr (fr', st')"
    and "\<And>i. \<not> P (Classify i)" and "\<And>i. \<not> P (GetPost i)"
  shows "filter P (trace st') = filter P (trace st)"
  using assms
  by (auto simp: classify_phase_def Let_def set_tags_from_relations_result
           split: prod.splits if_splits)

lemma classify_phase_run:
  assumes "classify_phase e a idx fr st = Inr (fr', st')"
    and "(cur_tags fr = [] \<and> deepbooru_enabled (conf st)) \<or> deepbooru_forced (conf st)"
    and "ts = fst (tag_image e idx (tmp_file fr))"
  shows "cur_tags fr' = ts"
    and "tags (cur_post fr') =
           py_union e [tags (cur_post fr)
                         @ concat (map (\<lambda>r. map primary_name (getPost e r)) (relations (cur_post fr))),
                       ts, add_tags a]"
    and "untagged (stats st') = untagged (stats st) + (if ts = [] then 1 else 0)"
    and "deepbooru (stats st') = deepbooru (stats st) + (if ts = [] then 0 else 1)"
    and "trace st' = trace st @ Classify (post_id (cur_post fr)) # map GetPost (relations (cur_post fr))"
  using assms
  by (auto simp: classify_phase_def Let_def set_tags_from_relations_result py_union_def
           split: prod.splits if_splits)

lemma cleanup_phase_error:
  "cleanup_phase e fr st = Inl (err, st') \<longleftrightarrow> (err = TypeError \<and> st' = st \<and> tmp_file fr = None)"
  by (auto simp: cleanup_phase_def split: option.splits)

lemma cleanup_phase_ok:
  assumes "cleanup_phase e fr st = Inr st'"
  shows "conf st' = conf st" and "stats st' = stats st" and "tmp_file fr \<noteq> None"
  using assms by (auto simp: cleanup_phase_def split: option.splits if_splits)

lemma cleanup_phase_trace:
  assumes "cleanup_phase e fr st = Inr st'" and "\<And>f. \<not> P (Remove f)"
  shows "filter P (trace st') = filter P (trace st)"
  using assms by (auto simp: cleanup_phase_def split: option.splits if_splits)

lemma remove_user_tags_set:
  "distinct ts \<Longrightarrow> set (remove_user_tags rs ts) = set ts - set rs \<and> distinct (remove_user_tags rs ts)"
proof (induction rs arbitrary: ts)
  case Nil
  then show ?case by simp
next
  case (Cons r rs)
  then show ?case by (auto simp: set_remove1_eq)
qed

lemma remove_placeholders_unfold:
  "a = ''deepbooru'' \<Longrightarrow> b = ''tagme'' \<Longrightarrow>
   remove_placeholders i ts =
     (if i < length ts
      then (if ts ! i = a \<or> ts ! i = b
            then remove_placeholders (Suc i) (remove1 (ts ! i) ts)
            else remove_placeholders (Suc i) ts)
      else ts)"
  by (subst remove_placeholders.simps) simp

lemma remove_placeholders_none:
  assumes "''deepbooru'' \<notin> set ts" and "''tagme'' \<notin> set ts"
  shows "remove_placeholders i ts = ts"
proof -
  define a where "a = ''deepbooru''"
  define b where "b = ''tagme''"
  note unf = remove_placeholders_unfold [OF a_def b_def]
  have "a \<notin> set ts \<Longrightarrow> b \<notin> set ts \<Longrightarrow> remove_placeholders i ts = ts"
  proof (induction "length ts - i" arbitrary: i)
    case 0
    then show ?case by (subst unf) simp
  next
    case (Suc n)
    then have lt: "i < length ts" by simp
    then have "ts ! i \<in> set ts" by simp
    then have ne: "ts ! i \<noteq> a" "ts ! i \<noteq> b" using Suc.prems by auto
    have "n = length ts - Suc i" using Suc.hyps(2) by simp
    then have "remove_placeholders (Suc i) ts = ts" using Suc.hyps(1) Suc.prems by blast
    then show ?case using lt ne by (subst unf) simp
  qed
  then show ?thesis using assms by (simp add: a_def b_def)
qed

lemma remove_placeholders_one:
  assumes "distinct ts" and "\<not> (''deepbooru'' \<in> set ts \<and> ''tagme'' \<in> set ts)"
  shows "set (remove_placeholders 0 ts) = set ts - {''deepbooru'', ''tagme''}"
proof -
  define a where "a = ''deepbooru''"
  define b where "b = ''tagme''"
  note unf = remove_placeholders_unfold [OF a_def b_def]
  have one: "\<not> (a \<in> set ts \<and> b \<in> set ts)" using assms(2) by (simp add: a_def b_def)
  have "(\<forall>j<i. j < length ts \<longrightarrow> ts ! j \<noteq> a \<and> ts ! j \<noteq> b)
        \<Longrightarrow> set (remove_placeholders i ts) = set ts - {a, b}" for i
  proof (induction "length ts - i" arbitrary: i)
    case 0
    then have "\<forall>j<length ts. ts ! j \<noteq> a \<and> ts ! j \<noteq> b" by auto
    then have "a \<notin> set ts" "b \<notin> set ts" by (auto simp: in_set_conv_nth)
    moreover have "remove_placeholders i ts = ts" using 0 by (subst unf) simp
    ultimately show ?case by auto
  next
    case (Suc n)
    then have lt: "i < length ts" by simp
    have n: "n = length ts - Suc i" using Suc.hyps(2) by simp
    show ?case
    proof (cases "ts ! i = a \<or> ts ! i = b")
      case False
      have "\<forall>j<Suc i. j < length ts \<longrightarrow> ts ! j \<noteq> a \<and> ts ! j \<noteq> b"
        using Suc.prems False by (auto simp: less_Suc_eq)
      then have "set (remove_placeholders (Suc i) ts) = set ts - {a, b}"
        using Suc.hyps(1) [OF n] by blast
      then show ?thesis using lt False by (subst unf) simp
    next
      case hit: True
      define x where "x = ts ! i"
      have mem: "x \<in> set ts" using lt by (simp add: x_def)
      have hx: "x = a \<or> x = b" using hit by (simp add: x_def)
      have rest: "set (remove1 x ts) = set ts - {x}"
        using assms(1) by (simp add: set_remove1_eq)
      have "a \<notin> set (remove1 x ts)" "b \<notin> set (remove1 x ts)"
        using rest hx mem one by blast+
      then have "''deepbooru'' \<notin> set (remove1 x ts)" "''tagme'' \<notin> set (remove1 x ts)"
        by (simp_all add: a_def b_def)
      then have "remove_placeholders (Suc i) (remove1 x ts) = remove1 x ts"
        by (rule remove_placeholders_none)
      then have "remove_placeholders i ts = remove1 x ts"
        using lt hit by (subst unf) (simp add: x_def)
      moreover have "set ts - {x} = set ts - {a, b}"
        using hx mem one by blast
      ultimately show ?thesis using rest by simp
    qed
  qed
  from this [of 0] show ?thesis by (simp add: a_def b_def)
qed

lemma remove_placeholders_skips:
  "remove_placeholders 0 [''deepbooru'', ''tagme'', ''cat''] = [''tagme'', ''cat'']"
  by code_simp

lemma patch_phase_empty:
  assumes "cur_tags fr = []"
  shows "\<exists>fr'. patch_phase e a fr st = Inr (fr', st) \<and> limit_reached fr' = limit_reached fr"
  using assms by (simp add: patch_phase_def Let_def)

lemma patch_phase_nonempty:
  assumes "cur_tags fr \<noteq> []"
  shows "patch_phase e a fr st =
           (if update_post e (edited_post a fr)
            then Inr (fr\<lparr>cur_post := edited_post a fr\<rparr>, emit (UpdatePost (edited_post a fr)) st)
            else Inl (UpdateFailed, emit (UpdatePost (edited_post a fr)) st))"
proof (cases "remove_tags a = []")
  case True
  then show ?thesis using assms by (simp add: patch_phase_def Let_def edited_post_def)
next
  case False
  then show ?thesis using assms by (simp add: patch_phase_def Let_def edited_post_def)
qed

lemma limit_phase_state:
  "conf (step_state (limit_phase tot idx fr st)) = conf st"
  "trace (step_state (limit_phase tot idx fr st)) = trace st"
  "tagged (stats (step_state (limit_phase tot idx fr st))) = tagged (stats st)"
  by (simp_all add: limit_phase_def)

lemma limit_phase_continue:
  assumes "\<not> limit_reached fr \<or> deepbooru_enabled (conf st)"
  shows "limit_phase tot idx fr st = Continue st"
  using assms by (auto simp: limit_phase_def)

lemma limit_phase_break:
  assumes "limit_reached fr" and "\<not> deepbooru_enabled (conf st)"
  shows "limit_phase tot idx fr st = Break (statistics 0 0 (tot - int idx - 1) st)"
  using assms by (simp add: limit_phase_def)

lemma loop_body_unfold:
  assumes "fetch_phase e t p st = (fr1, st1)" and "search_phase e a idx fr1 st1 = (fr2, st2)"
  shows "loop_body e a t tot idx p st =
     (case classify_phase e a idx fr2 st2 of
           Inl (err, st3) \<Rightarrow> Raised err st3
         | Inr (fr3, st3) \<Rightarrow>
             (case cleanup_phase e fr3 st3 of
                Inl (err, st4) \<Rightarrow> Raised err st4
              | Inr st4 \<Rightarrow>
                  (case patch_phase e a fr3 st4 of
                     Inl (err, st5) \<Rightarrow> Raised err st5
                   | Inr (fr5, st5) \<Rightarrow> limit_phase tot idx fr5 st5)))"
  using assms by (simp add: loop_body_def)

lemma media_path_fetch:
  assumes "fetch_phase e t p st = (fr1, st1)"
  shows "tmp_file fr1 = media_path e t p st"
  using assms by (simp add: media_path_def)

lemma search_answer_fetch:
  assumes "fetch_phase e t p st = (fr1, st1)"
  shows "get_metadata e idx (public (conf st1)) (content_url (cur_post fr1)) (str_of_path (tmp_file fr1))
         = search_answer e t idx p st"
  using assms fetch_phase_frame [OF assms]
  by (simp add: search_answer_def media_path_def)

subsection \<open>The forced classifier\<close>

text \<open>
  C10: with the search client and the classifier enabled and the forced mode on, a post
  for which the search client returns at least one tag and the classifier returns none
  is counted as tagged (line 105) and as untagged (line 251) in the same iteration, and
  it is not patched, since line 263 tests the tags of the classifier. The iteration
  ends normally.
\<close>

theorem forced_classifier_counts_twice:
  assumes on: "saucenao_enabled (conf st)" "deepbooru_enabled (conf st)" "deepbooru_forced (conf st)"
    and found: "found_tags (search_answer e t idx p st) \<noteq> []"
    and none: "fst (tag_image e idx (media_path e t p st)) = []"
  shows "\<exists>st'. loop_body e a t tot idx p st = Continue st'
          \<and> tagged (stats st') = tagged (stats st) + 1
          \<and> untagged (stats st') = untagged (stats st) + 1
          \<and> filter is_patch (trace st') = filter is_patch (trace st)"
proof -
  obtain fr1 st1 where f: "fetch_phase e t p st = (fr1, st1)" by (cases "fetch_phase e t p st")
  obtain fr2 st2 where s: "search_phase e a idx fr1 st1 = (fr2, st2)"
    by (cases "search_phase e a idx fr1 st1")
  note ff = fetch_phase_frame [OF f]
  have on1: "saucenao_enabled (conf st1)" using on ff by simp
  note sa = search_answer_fetch [OF f, of idx] media_path_fetch [OF f]
  note sc = search_phase_conf [OF s]
  note sf = search_phase_frame [OF s]
  have tg2: "tagged (stats st2) = tagged (stats st) + 1"
    using search_phase_on(5) [OF s on1 refl] sa found ff by simp
  have c2: "deepbooru_enabled (conf st2)" "deepbooru_forced (conf st2)"
    using sc ff on by simp_all
  obtain fr3 st3 where c: "classify_phase e a idx fr2 st2 = Inr (fr3, st3)"
    using classify_phase_error [of e a idx fr2 st2] c2
    by (cases "classify_phase e a idx fr2 st2") auto
  note cc = classify_phase_conf [OF c]
  have ts: "fst (tag_image e idx (tmp_file fr2)) = []" using none sf sa by simp
  have run: "(cur_tags fr2 = [] \<and> deepbooru_enabled (conf st2)) \<or> deepbooru_forced (conf st2)"
    using c2 by simp
  note cr = classify_phase_run [OF c run refl]
  have e3: "cur_tags fr3 = []" using cr(1) ts by simp
  have u3: "untagged (stats st3) = untagged (stats st) + 1" using cr(3) ts sf ff by simp
  have t3: "tagged (stats st3) = tagged (stats st) + 1" using cc tg2 by simp
  have tmp3: "tmp_file fr3 \<noteq> None" using cc sf ff on by simp
  obtain st4 where cl: "cleanup_phase e fr3 st3 = Inr st4"
    using cleanup_phase_error [of e fr3 st3] tmp3 by (cases "cleanup_phase e fr3 st3") auto
  note clo = cleanup_phase_ok [OF cl]
  obtain fr5 where pa: "patch_phase e a fr3 st4 = Inr (fr5, st4)"
    using patch_phase_empty [OF e3] by blast
  have d4: "deepbooru_enabled (conf st4)" using clo cc c2 by simp
  have lb: "loop_body e a t tot idx p st = Continue st4"
    using loop_body_unfold [OF f s] c cl pa limit_phase_continue [of fr5 st4] d4 by simp
  have tr1: "filter is_patch (trace st1) = filter is_patch (trace st)"
    by (rule fetch_phase_trace [OF f]) (simp_all add: is_patch_def)
  have tr2: "filter is_patch (trace st2) = filter is_patch (trace st1)"
    by (rule search_phase_trace [OF s]) (simp_all add: is_patch_def)
  have tr3: "filter is_patch (trace st3) = filter is_patch (trace st2)"
    by (rule classify_phase_trace [OF c]) (simp_all add: is_patch_def)
  have tr4: "filter is_patch (trace st4) = filter is_patch (trace st3)"
    by (rule cleanup_phase_trace [OF cl]) (simp_all add: is_patch_def)
  show ?thesis using lb t3 u3 clo tr1 tr2 tr3 tr4 by simp
qed

theorem forced_classifier_counts_twice_witness:
  "saucenao_enabled (conf (example_state\<lparr>conf := example_config\<lparr>deepbooru_enabled := True, deepbooru_forced := True\<rparr>\<rparr>))
   \<and> found_tags (search_answer example_env None 0 example_post
        (example_state\<lparr>conf := example_config\<lparr>deepbooru_enabled := True, deepbooru_forced := True\<rparr>\<rparr>)) = [''cat'']
   \<and> fst (tag_image example_env 0 (media_path example_env None example_post
        (example_state\<lparr>conf := example_config\<lparr>deepbooru_enabled := True, deepbooru_forced := True\<rparr>\<rparr>))) = []
   \<and> (\<exists>st'. loop_body example_env example_args None 1 0 example_post
              (example_state\<lparr>conf := example_config\<lparr>deepbooru_enabled := True, deepbooru_forced := True\<rparr>\<rparr>)
            = Continue st'
          \<and> tagged (stats st') = 1 \<and> untagged (stats st') = 1 \<and> filter is_patch (trace st') = [])"
proof -
  let ?st = "example_state\<lparr>conf := example_config\<lparr>deepbooru_enabled := True, deepbooru_forced := True\<rparr>\<rparr>"
  have h1: "saucenao_enabled (conf ?st)" "deepbooru_enabled (conf ?st)" "deepbooru_forced (conf ?st)"
    by (simp_all add: example_state_def example_config_def)
  have h2: "found_tags (search_answer example_env None 0 example_post ?st) = [''cat'']"
    by (simp add: search_answer_def example_env_def example_metadata_def)
  have h3: "fst (tag_image example_env 0 (media_path example_env None example_post ?st)) = []"
    by (simp add: example_env_def)
  have h2': "found_tags (search_answer example_env None 0 example_post ?st) \<noteq> []"
    using h2 by simp
  have st0: "tagged (stats ?st) = 0" "untagged (stats ?st) = 0" "trace ?st = []"
    by (simp_all add: example_state_def)
  from forced_classifier_counts_twice [OF h1 h2' h3, of example_args 1]
  show ?thesis using h1 h2 h3 st0 by simp
qed

subsection \<open>Evaluations of the code\<close>

text \<open>
  C5 does not hold of the code: the test of line 137 is true of every category, so the
  copier appends every tag of a related post. Here the related post 7 has a tag of
  category \<open>default\<close>, one of category \<open>artist\<close> and one of category \<open>meta\<close>, and all
  three are appended.
\<close>

theorem relation_copier_copies_default_and_meta:
  "fst (set_tags_from_relations
          (example_env\<lparr>getPost := (\<lambda>i. [\<lparr>primary_name = ''1girl'', category = ''default''\<rparr>,
                                          \<lparr>primary_name = ''artist_x'', category = ''artist''\<rparr>,
                                          \<lparr>primary_name = ''translated'', category = ''meta''\<rparr>])\<rparr>)
          (example_post\<lparr>relations := [7]\<rparr>) example_state)
   = example_post\<lparr>relations := [7],
                   tags := [''tagme'', ''dog'', ''1girl'', ''artist_x'', ''translated'']\<rparr>"
  by code_simp

text \<open>
  C2 does not hold of the code: with \<^verbatim>\<open>--sankaku_url\<close> and the query \<^verbatim>\<open>tag-count:0\<close> the
  server is asked for the posts first, the critical line is logged, and the call then
  goes on to the summary and returns; \<^verbatim>\<open>exit()\<close> is not called. No post is taken
  from the server's answer and none is patched.
\<close>

theorem sankaku_url_with_query_returns_normally:
  "main example_env
        (example_cli\<lparr>cli_sankaku_url := Some ''https://chan.sankaku.example/post/1''\<rparr>)
        None None example_state
   = (Returned,
      example_state\<lparr>trace := [GetPosts ''tag-count:0'',
                               Critical ''Can only tag a single post if you specify --sankaku_url.'',
                               Summary 1 (stats example_state)]\<rparr>)"
  by code_simp

text \<open>
  C6 does not hold of the code on a public server: with the classifier disabled, ten
  posts and the long quota used up at the first search call, the iteration ends in the
  TypeError of line 256 before line 267 is reached. The counter of untagged posts is 1
  (the post itself, line 253) and the nine posts left are not counted.
\<close>

theorem public_server_abort_not_counted:
  "main (example_env\<lparr>get_posts := (\<lambda>q u. (10, map (\<lambda>i. example_post\<lparr>post_id := i\<rparr>) [0..<10])),
                     get_metadata := (\<lambda>idx pub url f. example_metadata\<lparr>found_tags := [], limit_long := 0\<rparr>)\<rparr>)
        example_cli None None (example_state\<lparr>conf := example_config\<lparr>public := True\<rparr>\<rparr>)
   = (Caught TypeError,
      example_state\<lparr>conf := example_config\<lparr>public := True\<rparr>,
                    stats := (stats example_state)\<lparr>untagged := 1\<rparr>,
                    trace := [GetPosts ''tag-count:0'', NextPost 0, Search 0]\<rparr>)"
  by code_simp

subsection \<open>Evaluating a concrete run\<close>

lemmas model_defs =
  main_def parse_args_def split_tags_def split_comma_def truthy_def sankaku_path_def isnumeric_def
  loop_body_def fetch_phase_def download_media_def search_phase_def parse_saucenao_results_def
  classify_phase_def cleanup_phase_def patch_phase_def limit_phase_def py_union_def
  str_of_path_def collect_sources_def splitlines_def is_linebreak_def
  set_tags_from_relations_def normalize_source_def remove_old_marker_def add_marker_def
  remove_placeholders.simps Let_def

lemmas example_defs =
  example_env_def example_post_def example_state_def example_config_def example_metadata_def
  example_args_def example_cli_def

lemma loop_body_trace_after_search:
  assumes f: "fetch_phase e t p st = (fr1, st1)" and s: "search_phase e a idx fr1 st1 = (fr2, st2)"
    and P: "\<And>i. \<not> P (Classify i)" "\<And>i. \<not> P (GetPost i)" "\<And>f. \<not> P (Remove f)"
           "\<And>q. \<not> P (UpdatePost q)"
  shows "filter P (trace (step_state (loop_body e a t tot idx p st))) = filter P (trace st2)"
proof (cases "classify_phase e a idx fr2 st2")
  case (Inl x)
  then obtain err st3 where c: "classify_phase e a idx fr2 st2 = Inl (err, st3)" by (cases x) auto
  then have "st3 = st2" by (simp add: classify_phase_error)
  then show ?thesis using loop_body_unfold [OF f s] c by simp
next
  case (Inr x)
  then obtain fr3 st3 where c: "classify_phase e a idx fr2 st2 = Inr (fr3, st3)" by (cases x) auto
  have t3: "filter P (trace st3) = filter P (trace st2)"
    by (rule classify_phase_trace [OF c]) (rule P)+
  show ?thesis
  proof (cases "cleanup_phase e fr3 st3")
    case (Inl y)
    then obtain err st4 where cl: "cleanup_phase e fr3 st3 = Inl (err, st4)" by (cases y) auto
    then have "st4 = st3" by (simp add: cleanup_phase_error)
    then show ?thesis using loop_body_unfold [OF f s] c cl t3 by simp
  next
    case (Inr st4)
    have t4: "filter P (trace st4) = filter P (trace st3)"
      by (rule cleanup_phase_trace [OF Inr]) (rule P)
    show ?thesis
    proof (cases "cur_tags fr3 = []")
      case True
      then obtain fr5 where pa: "patch_phase e a fr3 st4 = Inr (fr5, st4)"
        using patch_phase_empty by blast
      then show ?thesis
        using loop_body_unfold [OF f s] c Inr t3 t4 by (simp add: limit_phase_state)
    next
      case False
      show ?thesis
        using loop_body_unfold [OF f s] c Inr t3 t4 patch_phase_nonempty [OF False, of e a st4] P(4)
        by (simp add: limit_phase_state)
    qed
  qed
qed

subsection \<open>The short quota\<close>

text \<open>
  C3, amended: when the search call for a post returns short quota 0 and a long quota
  other than 0, the process sleeps 35 seconds once, right after that call, and issues no
  second search call for the post: the search call before the sleep is the only one of
  the iteration, whose later steps use what that call returned.
\<close>

theorem short_limit_sleeps_without_retry:
  assumes "saucenao_enabled (conf st)"
    and "limit_short (search_answer e t idx p st) = 0"
    and "limit_long (search_answer e t idx p st) \<noteq> 0"
  shows "filter is_search_or_sleep (trace (step_state (loop_body e a t tot idx p st)))
         = filter is_search_or_sleep (trace st) @ [Search (post_id p), Sleep 35]"
proof -
  obtain fr1 st1 where f: "fetch_phase e t p st = (fr1, st1)" by (cases "fetch_phase e t p st")
  obtain fr2 st2 where s: "search_phase e a idx fr1 st1 = (fr2, st2)"
    by (cases "search_phase e a idx fr1 st1")
  note ff = fetch_phase_frame [OF f]
  have on1: "saucenao_enabled (conf st1)" using assms(1) ff by simp
  have t1: "filter is_search_or_sleep (trace st1) = filter is_search_or_sleep (trace st)"
    by (rule fetch_phase_trace [OF f]) (simp_all add: is_search_or_sleep_def)
  have "trace st2 = trace st1 @ [Search (post_id p),
          Warning ''Short limit reached for SauceNAO, trying again in 35s...'', Sleep 35]"
    using search_phase_on(6) [OF s on1 refl] search_answer_fetch [OF f, of idx] assms(2,3) ff
    by simp
  then have t2: "filter is_search_or_sleep (trace st2)
                 = filter is_search_or_sleep (trace st) @ [Search (post_id p), Sleep 35]"
    using t1 by (simp add: is_search_or_sleep_def)
  have "filter is_search_or_sleep (trace (step_state (loop_body e a t tot idx p st)))
        = filter is_search_or_sleep (trace st2)"
    by (rule loop_body_trace_after_search [OF f s]) (simp_all add: is_search_or_sleep_def)
  then show ?thesis using t2 by simp
qed

theorem short_limit_sleeps_without_retry_witness:
  "saucenao_enabled (conf example_state)
   \<and> limit_short (search_answer (example_env\<lparr>get_metadata := (\<lambda>idx pub url f. example_metadata\<lparr>limit_short := 0, limit_long := 5\<rparr>)\<rparr>)
        None 0 example_post example_state) = 0
   \<and> limit_long (search_answer (example_env\<lparr>get_metadata := (\<lambda>idx pub url f. example_metadata\<lparr>limit_short := 0, limit_long := 5\<rparr>)\<rparr>)
        None 0 example_post example_state) = 5
   \<and> filter is_search_or_sleep (trace (step_state (loop_body 
         (example_env\<lparr>get_metadata := (\<lambda>idx pub url f. example_metadata\<lparr>limit_short := 0, limit_long := 5\<rparr>)\<rparr>)
         example_args None 1 0 example_post example_state)))
       = [Search 1, Sleep 35]"
proof -
  let ?e = "example_env\<lparr>get_metadata := (\<lambda>idx pub url f. example_metadata\<lparr>limit_short := 0, limit_long := 5\<rparr>)\<rparr>"
  have h1: "saucenao_enabled (conf example_state)"
    by (simp add: example_state_def example_config_def)
  have h2: "limit_short (search_answer ?e None 0 example_post example_state) = 0"
    by (simp add: search_answer_def example_env_def example_metadata_def)
  have h3: "limit_long (search_answer ?e None 0 example_post example_state) = 5"
    by (simp add: search_answer_def example_env_def example_metadata_def)
  have h3': "limit_long (search_answer ?e None 0 example_post example_state) \<noteq> 0"
    using h3 by simp
  have p: "post_id example_post = 1" "trace example_state = []"
    by (simp_all add: example_post_def example_state_def)
  have r: "filter is_search_or_sleep (trace (step_state (loop_body ?e example_args None 1 0 example_post example_state)))
           = filter is_search_or_sleep (trace example_state) @ [Search (post_id example_post), Sleep 35]"
    by (rule short_limit_sleeps_without_retry [OF h1 h2 h3'])
  have r': "filter is_search_or_sleep (trace (step_state (loop_body ?e example_args None 1 0 example_post example_state)))
           = [Search 1, Sleep 35]"
    unfolding r p by simp
  show ?thesis by (intro conjI) (rule h1 h2 h3 r')+
qed

text \<open>
  C3 as the claim states it fails: in a run over the posts 1 and 2 in which the first
  search call returns short quota 0 and long quota 5, the search calls and sleeps are one
  call for post 1, the sleep, and the call for post 2.
\<close>

theorem short_limit_no_second_search:
  "filter is_search_or_sleep (trace (snd (main
       (example_env\<lparr>get_posts := (\<lambda>q u. (2, [example_post, example_post\<lparr>post_id := 2\<rparr>])),
                     get_metadata := (\<lambda>idx pub url f. if idx = 0 then example_metadata\<lparr>limit_short := 0, limit_long := 5\<rparr> else example_metadata)\<rparr>)
       example_cli None None example_state)))
   = [Search 1, Sleep 35, Search 2]"
  by (simp add: model_defs example_defs is_search_or_sleep_def)

subsection \<open>A public server without the classifier\<close>

lemma loop_body_public_no_classifier:
  assumes pub: "public (conf st)" and nd: "\<not> deepbooru_enabled (conf st)"
    and P: "\<And>i. \<not> P (Search i)" "\<And>n. \<not> P (Sleep n)" "\<And>m. \<not> P (Warning m)"
  shows "\<exists>st'. loop_body e a t tot idx p st =
                 Raised (if deepbooru_forced (conf st) then UnboundLocalError else TypeError) st'
            \<and> filter P (trace st') = filter P (trace st)"
proof -
  obtain fr1 st1 where f: "fetch_phase e t p st = (fr1, st1)" by (cases "fetch_phase e t p st")
  obtain fr2 st2 where s: "search_phase e a idx fr1 st1 = (fr2, st2)"
    by (cases "search_phase e a idx fr1 st1")
  have st1: "st1 = st" using fetch_phase_public [OF f pub nd] .
  note ff = fetch_phase_frame [OF f]
  note sc = search_phase_conf [OF s]
  have none: "tmp_file fr2 = None" using search_phase_frame(1) [OF s] ff(5) pub nd by simp
  have t2: "filter P (trace st2) = filter P (trace st)"
    using search_phase_trace [OF s, of P] P st1 by simp
  have c2: "\<not> deepbooru_enabled (conf st2)" "deepbooru_forced (conf st2) = deepbooru_forced (conf st)"
    using sc st1 nd by simp_all
  show ?thesis
  proof (cases "deepbooru_forced (conf st)")
    case True
    then have "classify_phase e a idx fr2 st2 = Inl (UnboundLocalError, st2)"
      using c2 by (simp add: classify_phase_error)
    then show ?thesis using loop_body_unfold [OF f s] True t2 by simp
  next
    case False
    then have c: "classify_phase e a idx fr2 st2
                  = Inr (fr2, if cur_tags fr2 = [] then statistics 0 0 1 st2 else st2)"
      using c2 by (simp add: classify_phase_skip)
    define st3 where "st3 = (if cur_tags fr2 = [] then statistics 0 0 1 st2 else st2)"
    have cl: "cleanup_phase e fr2 st3 = Inl (TypeError, st3)"
      using none by (simp add: cleanup_phase_error)
    have "trace st3 = trace st2" by (simp add: st3_def)
    then show ?thesis using loop_body_unfold [OF f s] c cl False t2 by (simp add: st3_def)
  qed
qed

lemma main_from_command_line:
  assumes "saucenao_enabled (conf st) \<or> deepbooru_enabled (conf st)"
    and "\<not> str_in ''type:'' (cli_query c)" and "cli_sankaku_url c = None"
    and "get_posts e (cli_query c) False = (tot, posts)"
  shows "\<exists>a st2. conf st2 = conf st \<and> stats st2 = stats st
           \<and> (\<forall>P. (\<forall>q. \<not> P (GetPosts q)) \<and> (\<forall>m. \<not> P (Warning m))
                    \<longrightarrow> filter P (trace st2) = filter P (trace st))
           \<and> main e c None t st =
               (case posts_loop e a t tot 0 posts st2 of
                  (Some err, st4) \<Rightarrow> (Caught err, st4)
                | (None, st4) \<Rightarrow> (Returned, emit (Summary tot (stats st4)) st4))"
proof -
  define st1 where "st1 = (if str_in [CHR 0x27] (cli_query c)
                           then emit (Warning ''Your query contains single quotes'') st else st)"
  define a where "a = \<lparr>sankaku_url = None :: string option, query = cli_query c,
                        add_tags = split_tags (cli_add_tags c),
                        remove_tags = split_tags (cli_remove_tags c)\<rparr>"
  define st2 where "st2 = emit (GetPosts (cli_query c)) st1"
  have pa: "parse_args c st = (Some a, st1)"
    using assms(2,3) by (simp add: parse_args_def a_def st1_def)
  have m: "main e c None t st =
               (case posts_loop e a t tot 0 posts st2 of
                  (Some err, st4) \<Rightarrow> (Caught err, st4)
                | (None, st4) \<Rightarrow> (Returned, emit (Summary tot (stats st4)) st4))"
    using assms(1,4) pa
    by (auto simp: main_def truthy_def a_def st2_def split: prod.splits option.splits)
  have "conf st2 = conf st" "stats st2 = stats st" by (simp_all add: st2_def st1_def)
  moreover have "\<forall>P. (\<forall>q. \<not> P (GetPosts q)) \<and> (\<forall>m. \<not> P (Warning m))
                    \<longrightarrow> filter P (trace st2) = filter P (trace st)"
    by (simp add: st2_def st1_def)
  ultimately show ?thesis using m by blast
qed

text \<open>
  C4 as the claim states it fails when the forced mode is on: line 231 then reads the
  name \<open>deepbooru\<close>, which is not bound when the classifier is disabled, and the
  iteration ends there, before the cleanup of line 256.
\<close>

theorem public_server_forced_mode_stops_before_cleanup:
  "fst (main example_env example_cli None None
          (example_state\<lparr>conf := example_config\<lparr>public := True, deepbooru_forced := True\<rparr>\<rparr>))
   = Caught UnboundLocalError"
  by (simp add: model_defs example_defs)

text \<open>
  C4, amended: on a public server with the classifier disabled (and the search client
  enabled, or the run does nothing), the first iteration of a run from the command line
  fetches no media file and ends in an exception that \<open>logger.catch\<close> turns into the
  end of the run, so that one post is visited and none is patched. With the forced mode
  off the exception is the TypeError of the cleanup, whose test for the file is applied
  to \<open>None\<close>; with the forced mode on it is the unbound name of line 231.
\<close>

theorem public_server_without_classifier_stops:
  assumes "public (conf st)" and "\<not> deepbooru_enabled (conf st)" and "saucenao_enabled (conf st)"
    and "\<not> str_in ''type:'' (cli_query c)" and "cli_sankaku_url c = None"
    and "get_posts e (cli_query c) False = (tot, p # ps)"
  shows "fst (main e c None t st)
           = Caught (if deepbooru_forced (conf st) then UnboundLocalError else TypeError)
       \<and> filter is_post_io (trace (snd (main e c None t st)))
           = filter is_post_io (trace st) @ [NextPost (post_id p)]"
proof -
  from main_from_command_line [OF _ assms(4,5,6), of st t] assms(3)
  obtain a st2 where c2: "conf st2 = conf st"
    and tr: "\<forall>P. (\<forall>q. \<not> P (GetPosts q)) \<and> (\<forall>m. \<not> P (Warning m))
                    \<longrightarrow> filter P (trace st2) = filter P (trace st)"
    and m: "main e c None t st =
               (case posts_loop e a t tot 0 (p # ps) st2 of
                  (Some err, st4) \<Rightarrow> (Caught err, st4)
                | (None, st4) \<Rightarrow> (Returned, emit (Summary tot (stats st4)) st4))"
    by blast
  have t2: "filter is_post_io (trace st2) = filter is_post_io (trace st)"
    using tr by (simp add: is_post_io_def)
  define st3 where "st3 = emit (NextPost (post_id p)) st2"
  have c3: "public (conf st3)" "\<not> deepbooru_enabled (conf st3)"
    "deepbooru_forced (conf st3) = deepbooru_forced (conf st)"
    using assms(1,2) c2 by (simp_all add: st3_def)
  from loop_body_public_no_classifier [OF c3(1,2), of is_post_io e a t tot 0 p]
  obtain st' where lb: "loop_body e a t tot 0 p st3 =
        Raised (if deepbooru_forced (conf st) then UnboundLocalError else TypeError) st'"
    and t': "filter is_post_io (trace st') = filter is_post_io (trace st3)"
    using c3(3) by (auto simp: is_post_io_def)
  have pl: "posts_loop e a t tot 0 (p # ps) st2 =
        (Some (if deepbooru_forced (conf st) then UnboundLocalError else TypeError), st')"
    using lb by (simp add: st3_def)
  have "filter is_post_io (trace st3) = filter is_post_io (trace st) @ [NextPost (post_id p)]"
    using t2 by (simp add: st3_def is_post_io_def)
  then show ?thesis using m pl t' by simp
qed

theorem public_server_without_classifier_stops_witness:
  "public (conf (example_state\<lparr>conf := example_config\<lparr>public := True\<rparr>\<rparr>))
   \<and> \<not> deepbooru_enabled (conf (example_state\<lparr>conf := example_config\<lparr>public := True\<rparr>\<rparr>))
   \<and> saucenao_enabled (conf (example_state\<lparr>conf := example_config\<lparr>public := True\<rparr>\<rparr>))
   \<and> \<not> str_in ''type:'' (cli_query example_cli)
   \<and> cli_sankaku_url example_cli = None
   \<and> get_posts example_env (cli_query example_cli) False = (1, [example_post])
   \<and> fst (main example_env example_cli None None (example_state\<lparr>conf := example_config\<lparr>public := True\<rparr>\<rparr>))
       = Caught TypeError
   \<and> filter is_post_io (trace (snd (main example_env example_cli None None
         (example_state\<lparr>conf := example_config\<lparr>public := True\<rparr>\<rparr>))))
       = [NextPost 1]"
proof -
  let ?st = "example_state\<lparr>conf := example_config\<lparr>public := True\<rparr>\<rparr>"
  have h1: "public (conf ?st)" by (simp add: example_defs)
  have h2: "\<not> deepbooru_enabled (conf ?st)" by (simp add: example_defs)
  have h3: "saucenao_enabled (conf ?st)" by (simp add: example_defs)
  have h4: "\<not> str_in ''type:'' (cli_query example_cli)" by (simp add: example_defs)
  have h5: "cli_sankaku_url example_cli = None" by (simp add: example_defs)
  have h6: "get_posts example_env (cli_query example_cli) False = (1, [example_post])"
    by (simp add: example_defs)
  have nf: "\<not> deepbooru_forced (conf ?st)" "trace ?st = []" "post_id example_post = 1"
    by (simp_all add: example_defs)
  from public_server_without_classifier_stops [OF h1 h2 h3 h4 h5 h6, of None]
  have r: "fst (main example_env example_cli None None ?st) = Caught TypeError"
    and r2: "filter is_post_io (trace (snd (main example_env example_cli None None ?st))) = [NextPost 1]"
    using nf by simp_all
  show ?thesis by (intro conjI) (rule h1 h2 h3 h4 h5 h6 r r2)+
qed

subsection \<open>The long quota\<close>





lemma search_tags_fetch:
  assumes f: "fetch_phase e t p st = (fr1, st1)" and s: "search_phase e a idx fr1 st1 = (fr2, st2)"
  shows "cur_tags fr2 = search_tags e t idx p st"
proof (cases "saucenao_enabled (conf st)")
  case True
  then have on1: "saucenao_enabled (conf st1)" using fetch_phase_frame [OF f] by simp
  show ?thesis
    using search_phase_on(1) [OF s on1 refl] search_answer_fetch [OF f, of idx] True
    by (simp add: search_tags_def)
next
  case False
  then have "\<not> saucenao_enabled (conf st1)" using fetch_phase_frame [OF f] by simp
  then have "fr2 = fr1\<lparr>limit_reached := False\<rparr>" using s by (simp add: search_phase_off)
  then show ?thesis using False fetch_phase_frame [OF f] by (simp add: search_tags_def)
qed





subsection \<open>The patch\<close>

lemma cleanup_phase_some:
  assumes "tmp_file fr \<noteq> None"
  shows "\<exists>st'. cleanup_phase e fr st = Inr st'"
  using assms by (auto simp: cleanup_phase_def split: option.splits)

lemma classifier_runs_fetch:
  assumes f: "fetch_phase e t p st = (fr1, st1)" and s: "search_phase e a idx fr1 st1 = (fr2, st2)"
  shows "classifier_runs e t idx p st
         = ((cur_tags fr2 = [] \<and> deepbooru_enabled (conf st2)) \<or> deepbooru_forced (conf st2))"
  using search_tags_fetch [OF f s] search_phase_conf [OF s] fetch_phase_frame [OF f]
  by (simp add: classifier_runs_def)

lemma last_found_classify:
  assumes f: "fetch_phase e t p st = (fr1, st1)" and s: "search_phase e a idx fr1 st1 = (fr2, st2)"
    and c: "classify_phase e a idx fr2 st2 = Inr (fr3, st3)"
  shows "cur_tags fr3 = last_found e t idx p st"
proof (cases "classifier_runs e t idx p st")
  case True
  then have run: "(cur_tags fr2 = [] \<and> deepbooru_enabled (conf st2)) \<or> deepbooru_forced (conf st2)"
    using classifier_runs_fetch [OF f s] by simp
  have "tmp_file fr2 = media_path e t p st"
    using search_phase_frame(1) [OF s] media_path_fetch [OF f] by simp
  then show ?thesis
    using classify_phase_run(1) [OF c run refl] True
    by (simp add: last_found_def classifier_tags_def)
next
  case False
  then have "\<not> deepbooru_forced (conf st2)" "cur_tags fr2 \<noteq> [] \<or> \<not> deepbooru_enabled (conf st2)"
    using classifier_runs_fetch [OF f s] by auto
  from classify_phase_skip [OF this, of e a idx] c have "fr3 = fr2" by simp
  then show ?thesis using False search_tags_fetch [OF f s] by (simp add: last_found_def)
qed

lemma loop_body_patch_events:
  "\<exists>qs. filter is_patch (trace (step_state (loop_body e a t tot idx p st)))
           = filter is_patch (trace st) @ qs
        \<and> length qs \<le> 1 \<and> (last_found e t idx p st = [] \<longrightarrow> qs = [])"
proof -
  obtain fr1 st1 where f: "fetch_phase e t p st = (fr1, st1)" by (cases "fetch_phase e t p st")
  obtain fr2 st2 where s: "search_phase e a idx fr1 st1 = (fr2, st2)"
    by (cases "search_phase e a idx fr1 st1")
  have t1: "filter is_patch (trace st1) = filter is_patch (trace st)"
    by (rule fetch_phase_trace [OF f]) (simp_all add: is_patch_def)
  have t2: "filter is_patch (trace st2) = filter is_patch (trace st)"
    using search_phase_trace [OF s, of is_patch] t1 by (simp add: is_patch_def)
  show ?thesis
  proof (cases "classify_phase e a idx fr2 st2")
    case (Inl x)
    then obtain err st3 where c: "classify_phase e a idx fr2 st2 = Inl (err, st3)" by (cases x) auto
    then have "st3 = st2" by (simp add: classify_phase_error)
    then have "filter is_patch (trace (step_state (loop_body e a t tot idx p st)))
               = filter is_patch (trace st) @ []"
      using loop_body_unfold [OF f s] c t2 by simp
    then show ?thesis by (intro exI [of _ "[]"]) simp
  next
    case (Inr x)
    then obtain fr3 st3 where c: "classify_phase e a idx fr2 st2 = Inr (fr3, st3)" by (cases x) auto
    have lf: "cur_tags fr3 = last_found e t idx p st" by (rule last_found_classify [OF f s c])
    have t3: "filter is_patch (trace st3) = filter is_patch (trace st)"
      using classify_phase_trace [OF c, of is_patch] t2 by (simp add: is_patch_def)
    show ?thesis
    proof (cases "cleanup_phase e fr3 st3")
      case (Inl y)
      then obtain err st4 where cl: "cleanup_phase e fr3 st3 = Inl (err, st4)" by (cases y) auto
      then have "st4 = st3" by (simp add: cleanup_phase_error)
      then have "filter is_patch (trace (step_state (loop_body e a t tot idx p st)))
               = filter is_patch (trace st) @ []"
        using loop_body_unfold [OF f s] c cl t3 by simp
      then show ?thesis by (intro exI [of _ "[]"]) simp
    next
      case (Inr st4)
      have t4: "filter is_patch (trace st4) = filter is_patch (trace st)"
        using cleanup_phase_trace [OF Inr, of is_patch] t3 by (simp add: is_patch_def)
      show ?thesis
      proof (cases "cur_tags fr3 = []")
        case True
        then obtain fr5 where pa: "patch_phase e a fr3 st4 = Inr (fr5, st4)"
          using patch_phase_empty by blast
        have "filter is_patch (trace (step_state (loop_body e a t tot idx p st)))
               = filter is_patch (trace st) @ []"
          using loop_body_unfold [OF f s] c Inr pa t4 by (simp add: limit_phase_state)
        then show ?thesis by (intro exI [of _ "[]"]) simp
      next
        case False
        have "filter is_patch (trace (step_state (loop_body e a t tot idx p st)))
               = filter is_patch (trace st) @ [UpdatePost (edited_post a fr3)]"
          using loop_body_unfold [OF f s] c Inr t4 patch_phase_nonempty [OF False, of e a st4]
          by (simp add: limit_phase_state is_patch_def)
        then show ?thesis using False lf
          by (intro exI [of _ "[UpdatePost (edited_post a fr3)]"]) simp
      qed
    qed
  qed
qed

lemma loop_body_untagged_without_classifier:
  assumes nd: "\<not> deepbooru_enabled (conf st)" and nf: "\<not> deepbooru_forced (conf st)"
    and none: "search_tags e t idx p st = []"
  shows "untagged (stats (step_state (loop_body e a t tot idx p st)))
         = untagged (stats st) + 1
           + (if \<not> public (conf st) \<and> saucenao_enabled (conf st)
                 \<and> limit_long (search_answer e t idx p st) = 0
              then tot - int idx - 1 else 0)"
proof -
  obtain fr1 st1 where f: "fetch_phase e t p st = (fr1, st1)" by (cases "fetch_phase e t p st")
  obtain fr2 st2 where s: "search_phase e a idx fr1 st1 = (fr2, st2)"
    by (cases "search_phase e a idx fr1 st1")
  note ff = fetch_phase_frame [OF f]
  note sc = search_phase_conf [OF s]
  note sf = search_phase_frame [OF s]
  have e2: "cur_tags fr2 = []" using search_tags_fetch [OF f s] none by simp
  have c2: "\<not> deepbooru_enabled (conf st2)" "\<not> deepbooru_forced (conf st2)"
    "public (conf st2) = public (conf st)"
    using sc ff nd nf by simp_all
  define st3 where "st3 = statistics 0 0 1 st2"
  have c: "classify_phase e a idx fr2 st2 = Inr (fr2, st3)"
    using classify_phase_skip [of st2 fr2 e a idx] c2 e2 by (simp add: st3_def)
  have u3: "untagged (stats st3) = untagged (stats st) + 1"
    using sf ff by (simp add: st3_def)
  have lim2: "limit_reached fr2
              = (saucenao_enabled (conf st) \<and> limit_long (search_answer e t idx p st) = 0)"
  proof (cases "saucenao_enabled (conf st)")
    case True
    then have "saucenao_enabled (conf st1)" using ff by simp
    from search_phase_on(2) [OF s this refl] show ?thesis
      using search_answer_fetch [OF f, of idx] True by simp
  next
    case False
    then have "\<not> saucenao_enabled (conf st1)" using ff by simp
    then have "fr2 = fr1\<lparr>limit_reached := False\<rparr>" using s by (simp add: search_phase_off)
    then show ?thesis using False by simp
  qed
  show ?thesis
  proof (cases "public (conf st)")
    case True
    then have "tmp_file fr2 = None" using sf ff nd by simp
    then have "cleanup_phase e fr2 st3 = Inl (TypeError, st3)" by (simp add: cleanup_phase_error)
    then show ?thesis using loop_body_unfold [OF f s] c u3 True by simp
  next
    case False
    then have "tmp_file fr2 \<noteq> None" using sf ff by simp
    then obtain st4 where cl: "cleanup_phase e fr2 st3 = Inr st4"
      using cleanup_phase_some by blast
    note clo = cleanup_phase_ok [OF cl]
    obtain fr5 where pa: "patch_phase e a fr2 st4 = Inr (fr5, st4)"
      and l5: "limit_reached fr5 = limit_reached fr2"
      using patch_phase_empty [OF e2] by blast
    have c4: "\<not> deepbooru_enabled (conf st4)" "untagged (stats st4) = untagged (stats st) + 1"
      using clo c2 u3 by (simp_all add: st3_def)
    have lb: "loop_body e a t tot idx p st = limit_phase tot idx fr5 st4"
      using loop_body_unfold [OF f s] c cl pa by simp
    show ?thesis
    proof (cases "limit_reached fr2")
      case True
      then show ?thesis
        using lb limit_phase_break [of fr5 st4 tot idx] l5 c4 lim2 False by simp
    next
      case no: False
      then show ?thesis
        using lb limit_phase_continue [of fr5 st4 tot idx] l5 c4 lim2 False by auto
    qed
  qed
qed

text \<open>
  C7 as the claim states it fails. On a private server with the classifier disabled, the
  post at index 2 of 10 for which the search client returns no tag and a long quota of 0
  is counted as untagged by line 253, and line 268 then adds the 7 posts left to the
  same counter: it goes from 0 to 8 in the iteration. And with the classifier disabled
  but the forced mode on, the iteration ends at line 231 with the counter unchanged.
\<close>

theorem untagged_incremented_twice_on_abort:
  "untagged (stats example_state) = 0
   \<and> untagged (stats (step_state (loop_body
         (example_env\<lparr>get_metadata := (\<lambda>idx pub url f. example_metadata\<lparr>found_tags := [], limit_long := 0\<rparr>)\<rparr>)
         example_args None 10 2 example_post example_state))) = 8
   \<and> loop_body
         (example_env\<lparr>get_metadata := (\<lambda>idx pub url f. example_metadata\<lparr>found_tags := []\<rparr>)\<rparr>)
         example_args None 10 2 example_post
         (example_state\<lparr>conf := example_config\<lparr>deepbooru_forced := True\<rparr>\<rparr>)
       = Raised UnboundLocalError
           (example_state\<lparr>conf := example_config\<lparr>deepbooru_forced := True\<rparr>,
                          trace := [Download ''https://booru.example/data/1.png'', Search 1]\<rparr>)"
  by (simp add: model_defs example_defs statistics_def emit_def)

text \<open>
  C7, amended: in every iteration of the loop the post is patched at most once, and only
  if the last discovery step that ran produced at least one tag. If the search step
  yields no tag, the classifier is disabled and the forced mode is off, the post is not
  patched and the counter of untagged posts is incremented by one for the post; when that
  search call also reports the long quota used up on a private server, the abort of
  lines 267 to 269 adds the number of posts left to the same counter.
\<close>

theorem patch_at_most_once_untagged_once:
  "\<exists>qs. filter is_patch (trace (step_state (loop_body e a t tot idx p st)))
           = filter is_patch (trace st) @ qs
        \<and> length qs \<le> 1
        \<and> (last_found e t idx p st = [] \<longrightarrow> qs = [])
        \<and> (\<not> deepbooru_enabled (conf st) \<and> \<not> deepbooru_forced (conf st)
             \<and> search_tags e t idx p st = []
           \<longrightarrow> qs = []
               \<and> untagged (stats (step_state (loop_body e a t tot idx p st)))
                   = untagged (stats st) + 1
                     + (if \<not> public (conf st) \<and> saucenao_enabled (conf st)
                           \<and> limit_long (search_answer e t idx p st) = 0
                        then tot - int idx - 1 else 0))"
proof -
  define X where "X = (\<lambda>qs. filter is_patch (trace (step_state (loop_body e a t tot idx p st)))
           = filter is_patch (trace st) @ qs
        \<and> length qs \<le> 1 \<and> (last_found e t idx p st = [] \<longrightarrow> qs = []))"
  have "\<exists>qs. X qs" unfolding X_def by (rule loop_body_patch_events)
  then obtain qs where "X qs" ..
  then have q1: "filter is_patch (trace (step_state (loop_body e a t tot idx p st)))
           = filter is_patch (trace st) @ qs"
    and q2: "length qs \<le> 1" and q3: "last_found e t idx p st = [] \<longrightarrow> qs = []"
    unfolding X_def by simp_all
  have q4: "\<not> deepbooru_enabled (conf st) \<and> \<not> deepbooru_forced (conf st)
             \<and> search_tags e t idx p st = []
           \<longrightarrow> qs = []
               \<and> untagged (stats (step_state (loop_body e a t tot idx p st)))
                   = untagged (stats st) + 1
                     + (if \<not> public (conf st) \<and> saucenao_enabled (conf st)
                           \<and> limit_long (search_answer e t idx p st) = 0
                        then tot - int idx - 1 else 0)"
  proof (intro impI, elim conjE)
    assume h: "\<not> deepbooru_enabled (conf st)" "\<not> deepbooru_forced (conf st)"
      "search_tags e t idx p st = []"
    then have "last_found e t idx p st = []"
      by (simp add: last_found_def classifier_runs_def)
    then have "qs = []" using q3 by simp
    then show "qs = []
               \<and> untagged (stats (step_state (loop_body e a t tot idx p st)))
                   = untagged (stats st) + 1
                     + (if \<not> public (conf st) \<and> saucenao_enabled (conf st)
                           \<and> limit_long (search_answer e t idx p st) = 0
                        then tot - int idx - 1 else 0)"
      using loop_body_untagged_without_classifier [OF h] by simp
  qed
  show ?thesis by (intro exI [of _ qs] conjI) (rule q1 q2 q3 q4)+
qed

theorem patch_at_most_once_untagged_once_witness:
  "\<not> deepbooru_enabled (conf example_state) \<and> \<not> deepbooru_forced (conf example_state)
   \<and> search_tags (example_env\<lparr>get_metadata := (\<lambda>idx pub url f. example_metadata\<lparr>found_tags := []\<rparr>)\<rparr>)
        None 0 example_post example_state = []
   \<and> last_found (example_env\<lparr>get_metadata := (\<lambda>idx pub url f. example_metadata\<lparr>found_tags := []\<rparr>)\<rparr>)
        None 0 example_post example_state = []
   \<and> filter is_patch (trace (step_state (loop_body
        (example_env\<lparr>get_metadata := (\<lambda>idx pub url f. example_metadata\<lparr>found_tags := []\<rparr>)\<rparr>)
        example_args None 1 0 example_post example_state))) = []
   \<and> untagged (stats (step_state (loop_body
        (example_env\<lparr>get_metadata := (\<lambda>idx pub url f. example_metadata\<lparr>found_tags := []\<rparr>)\<rparr>)
        example_args None 1 0 example_post example_state))) = 1"
proof -
  let ?e = "example_env\<lparr>get_metadata := (\<lambda>idx pub url f. example_metadata\<lparr>found_tags := []\<rparr>)\<rparr>"
  let ?st' = "step_state (loop_body ?e example_args None 1 0 example_post example_state)"
  have h1: "\<not> deepbooru_enabled (conf example_state)" by (simp add: example_defs)
  have h2: "\<not> deepbooru_forced (conf example_state)" by (simp add: example_defs)
  have h3: "search_tags ?e None 0 example_post example_state = []"
    by (simp add: search_tags_def search_answer_def example_defs)
  have h4: "last_found ?e None 0 example_post example_state = []"
    using h1 h2 h3 by (simp add: last_found_def classifier_runs_def)
  have lim: "limit_long (search_answer ?e None 0 example_post example_state) \<noteq> 0"
    by (simp add: search_answer_def example_defs)
  have z: "trace example_state = []" "untagged (stats example_state) = 0"
    by (simp_all add: example_defs)
  define X where "X = (\<lambda>qs. filter is_patch (trace ?st') = filter is_patch (trace example_state) @ qs
        \<and> length qs \<le> 1
        \<and> (last_found ?e None 0 example_post example_state = [] \<longrightarrow> qs = [])
        \<and> (\<not> deepbooru_enabled (conf example_state) \<and> \<not> deepbooru_forced (conf example_state)
             \<and> search_tags ?e None 0 example_post example_state = []
           \<longrightarrow> qs = []
               \<and> untagged (stats ?st')
                   = untagged (stats example_state) + 1
                     + (if \<not> public (conf example_state) \<and> saucenao_enabled (conf example_state)
                           \<and> limit_long (search_answer ?e None 0 example_post example_state) = 0
                        then 1 - int 0 - 1 else 0)))"
  have "\<exists>qs. X qs" unfolding X_def by (rule patch_at_most_once_untagged_once)
  then obtain qs where x: "X qs" ..
  then have "qs = []" using h4 by (simp add: X_def)
  with x have r1: "filter is_patch (trace ?st') = []" using z by (simp add: X_def)
  from x have r2: "untagged (stats ?st') = 1" using h1 h2 h3 lim z by (simp add: X_def)
  show ?thesis by (intro conjI) (rule h1 h2 h3 h4 r1 r2)+
qed

subsection \<open>The tags that are pushed\<close>

lemma py_union_set:
  assumes "order_ok e"
  shows "distinct (py_union e xss)" and "set (py_union e xss) = set (concat xss)"
proof -
  have d: "distinct (remdups (concat xss))" by simp
  from assms have "distinct (remdups (concat xss)) \<longrightarrow>
      distinct (set_order e (remdups (concat xss)))
      \<and> set (set_order e (remdups (concat xss))) = set (remdups (concat xss))"
    unfolding order_ok_def by (rule allE)
  then show "distinct (py_union e xss)" and "set (py_union e xss) = set (concat xss)"
    using d by (simp_all add: py_union_def)
qed

lemma tags_after_search:
  assumes f: "fetch_phase e t p st = (fr1, st1)" and s: "search_phase e a idx fr1 st1 = (fr2, st2)"
    and ok: "order_ok e"
  shows "relations (cur_post fr2) = relations p"
    and "saucenao_enabled (conf st) \<Longrightarrow>
           distinct (tags (cur_post fr2))
           \<and> set (tags (cur_post fr2))
               = set (tags p) \<union> set (search_tags e t idx p st) \<union> set (add_tags a)"
    and "\<not> saucenao_enabled (conf st) \<Longrightarrow> tags (cur_post fr2) = tags p"
proof -
  note ff = fetch_phase_frame [OF f]
  show "relations (cur_post fr2) = relations p"
    using search_phase_frame(3) [OF s] ff by simp
  show "distinct (tags (cur_post fr2))
           \<and> set (tags (cur_post fr2))
               = set (tags p) \<union> set (search_tags e t idx p st) \<union> set (add_tags a)"
    if on: "saucenao_enabled (conf st)"
  proof -
    have on1: "saucenao_enabled (conf st1)" using on ff by simp
    have tg: "tags (cur_post fr2)
              = py_union e [tags p, search_tags e t idx p st, add_tags a]"
      using search_phase_on(3) [OF s on1 refl] search_answer_fetch [OF f, of idx] on ff
      by (simp add: search_tags_def)
    show ?thesis unfolding tg using py_union_set [OF ok] by auto
  qed
  show "tags (cur_post fr2) = tags p" if off: "\<not> saucenao_enabled (conf st)"
  proof -
    have "\<not> saucenao_enabled (conf st1)" using off ff by simp
    then have "fr2 = fr1\<lparr>limit_reached := False\<rparr>" using s by (simp add: search_phase_off)
    then show ?thesis using ff by simp
  qed
qed

lemma tags_after_classify:
  assumes f: "fetch_phase e t p st = (fr1, st1)" and s: "search_phase e a idx fr1 st1 = (fr2, st2)"
    and c: "classify_phase e a idx fr2 st2 = Inr (fr3, st3)"
    and ok: "order_ok e" and found: "last_found e t idx p st \<noteq> []"
  shows "distinct (tags (cur_post fr3))"
    and "set (tags (cur_post fr3))
         = set (tags p) \<union> set (search_tags e t idx p st) \<union> set (classifier_tags e t idx p st)
           \<union> set (relation_tags e t idx p st) \<union> set (add_tags a)"
proof -
  note ts = tags_after_search [OF f s ok]
  have both: "distinct (tags (cur_post fr3))
    \<and> set (tags (cur_post fr3))
         = set (tags p) \<union> set (search_tags e t idx p st) \<union> set (classifier_tags e t idx p st)
           \<union> set (relation_tags e t idx p st) \<union> set (add_tags a)"
  proof (cases "classifier_runs e t idx p st")
    case True
    then have run: "(cur_tags fr2 = [] \<and> deepbooru_enabled (conf st2)) \<or> deepbooru_forced (conf st2)"
      using classifier_runs_fetch [OF f s] by simp
    have tmp: "tmp_file fr2 = media_path e t p st"
      using search_phase_frame(1) [OF s] media_path_fetch [OF f] by simp
    have tg: "tags (cur_post fr3)
              = py_union e [tags (cur_post fr2) @ relation_tags e t idx p st,
                            classifier_tags e t idx p st, add_tags a]"
      using classify_phase_run(2) [OF c run refl] True tmp ts(1)
      by (simp add: classifier_tags_def relation_tags_def)
    have s2: "set (tags (cur_post fr2)) \<union> set (add_tags a)
              = set (tags p) \<union> set (search_tags e t idx p st) \<union> set (add_tags a)"
    proof (cases "saucenao_enabled (conf st)")
      case True
      then show ?thesis using ts(2) by auto
    next
      case False
      then show ?thesis using ts(3) by (simp add: search_tags_def)
    qed
    have "set (tags (cur_post fr3))
          = (set (tags (cur_post fr2)) \<union> set (add_tags a)) \<union> set (classifier_tags e t idx p st)
            \<union> set (relation_tags e t idx p st)"
      unfolding tg using py_union_set(2) [OF ok] by auto
    then have "set (tags (cur_post fr3))
         = set (tags p) \<union> set (search_tags e t idx p st) \<union> set (classifier_tags e t idx p st)
           \<union> set (relation_tags e t idx p st) \<union> set (add_tags a)"
      unfolding s2 by auto
    moreover have "distinct (tags (cur_post fr3))" unfolding tg by (rule py_union_set(1) [OF ok])
    ultimately show ?thesis by simp
  next
    case False
    then have "\<not> deepbooru_forced (conf st2)" "cur_tags fr2 \<noteq> [] \<or> \<not> deepbooru_enabled (conf st2)"
      using classifier_runs_fetch [OF f s] by auto
    from classify_phase_skip [OF this, of e a idx] c have same: "fr3 = fr2" by simp
    have "search_tags e t idx p st \<noteq> []" using found False by (simp add: last_found_def)
    then have on: "saucenao_enabled (conf st)" by (auto simp: search_tags_def split: if_splits)
    show ?thesis using ts(2) [OF on] False same
      by (simp add: classifier_tags_def relation_tags_def)
  qed
  from both show "distinct (tags (cur_post fr3))" by simp
  from both show "set (tags (cur_post fr3))
         = set (tags p) \<union> set (search_tags e t idx p st) \<union> set (classifier_tags e t idx p st)
           \<union> set (relation_tags e t idx p st) \<union> set (add_tags a)" by simp
qed

lemma edited_post_tags:
  assumes "distinct (tags (cur_post fr))"
    and "\<not> (''deepbooru'' \<in> set (tags (cur_post fr)) - set (remove_tags a)
           \<and> ''tagme'' \<in> set (tags (cur_post fr)) - set (remove_tags a))"
  shows "set (tags (edited_post a fr))
         = set (tags (cur_post fr)) - set (remove_tags a) - {''deepbooru'', ''tagme''}"
proof -
  define ts where "ts = remove_user_tags (remove_tags a) (tags (cur_post fr))"
  have r: "set ts = set (tags (cur_post fr)) - set (remove_tags a)" "distinct ts"
    using remove_user_tags_set [OF assms(1), of "remove_tags a"] by (simp_all add: ts_def)
  have one: "\<not> (''deepbooru'' \<in> set ts \<and> ''tagme'' \<in> set ts)"
    unfolding r(1) by (rule assms(2))
  have "set (remove_placeholders 0 ts) = set ts - {''deepbooru'', ''tagme''}"
    using r(2) one by (rule remove_placeholders_one)
  then show ?thesis unfolding r(1) by (simp add: edited_post_def ts_def)
qed

lemma pushed_tags_with_relation_tags:
  assumes ok: "order_ok e"
    and media: "\<not> public (conf st) \<or> deepbooru_enabled (conf st)"
    and bound: "deepbooru_forced (conf st) \<longrightarrow> deepbooru_enabled (conf st)"
    and found: "last_found e t idx p st \<noteq> []"
    and slip: "\<not> (''deepbooru'' \<in> (set (tags p) \<union> set (search_tags e t idx p st)
                     \<union> set (classifier_tags e t idx p st) \<union> set (relation_tags e t idx p st)
                     \<union> set (add_tags a)) - set (remove_tags a)
                \<and> ''tagme'' \<in> (set (tags p) \<union> set (search_tags e t idx p st)
                     \<union> set (classifier_tags e t idx p st) \<union> set (relation_tags e t idx p st)
                     \<union> set (add_tags a)) - set (remove_tags a))"
  shows "\<exists>q. filter is_patch (trace (step_state (loop_body e a t tot idx p st)))
               = filter is_patch (trace st) @ [UpdatePost q]
           \<and> set (tags q)
               = (set (tags p) \<union> set (search_tags e t idx p st)
                  \<union> set (classifier_tags e t idx p st) \<union> set (relation_tags e t idx p st)
                  \<union> set (add_tags a)) - set (remove_tags a) - {''deepbooru'', ''tagme''}"
proof -
  obtain fr1 st1 where f: "fetch_phase e t p st = (fr1, st1)" by (cases "fetch_phase e t p st")
  obtain fr2 st2 where s: "search_phase e a idx fr1 st1 = (fr2, st2)"
    by (cases "search_phase e a idx fr1 st1")
  note ff = fetch_phase_frame [OF f]
  note sc = search_phase_conf [OF s]
  note sf = search_phase_frame [OF s]
  have t1: "filter is_patch (trace st1) = filter is_patch (trace st)"
    by (rule fetch_phase_trace [OF f]) (simp_all add: is_patch_def)
  have t2: "filter is_patch (trace st2) = filter is_patch (trace st)"
    using search_phase_trace [OF s, of is_patch] t1 by (simp add: is_patch_def)
  have "\<not> (deepbooru_forced (conf st2) \<and> \<not> deepbooru_enabled (conf st2))"
    using bound sc ff by simp
  then obtain fr3 st3 where c: "classify_phase e a idx fr2 st2 = Inr (fr3, st3)"
    using classify_phase_error [of e a idx fr2 st2]
    by (cases "classify_phase e a idx fr2 st2") auto
  note cc = classify_phase_conf [OF c]
  have t3: "filter is_patch (trace st3) = filter is_patch (trace st)"
    using classify_phase_trace [OF c, of is_patch] t2 by (simp add: is_patch_def)
  have "tmp_file fr3 \<noteq> None" using cc sf ff media by auto
  then obtain st4 where cl: "cleanup_phase e fr3 st3 = Inr st4"
    using cleanup_phase_some by blast
  have t4: "filter is_patch (trace st4) = filter is_patch (trace st)"
    using cleanup_phase_trace [OF cl, of is_patch] t3 by (simp add: is_patch_def)
  have ne: "cur_tags fr3 \<noteq> []" using last_found_classify [OF f s c] found by simp
  have tr: "filter is_patch (trace (step_state (loop_body e a t tot idx p st)))
               = filter is_patch (trace st) @ [UpdatePost (edited_post a fr3)]"
    using loop_body_unfold [OF f s] c cl t4 patch_phase_nonempty [OF ne, of e a st4]
    by (simp add: limit_phase_state is_patch_def)
  note tc = tags_after_classify [OF f s c ok found]
  have one: "\<not> (''deepbooru'' \<in> set (tags (cur_post fr3)) - set (remove_tags a)
           \<and> ''tagme'' \<in> set (tags (cur_post fr3)) - set (remove_tags a))"
    unfolding tc(2) by (rule slip)
  have tg: "set (tags (edited_post a fr3))
            = (set (tags p) \<union> set (search_tags e t idx p st)
                  \<union> set (classifier_tags e t idx p st) \<union> set (relation_tags e t idx p st)
                  \<union> set (add_tags a)) - set (remove_tags a) - {''deepbooru'', ''tagme''}"
    using edited_post_tags [OF tc(1) one] unfolding tc(2) .
  show ?thesis by (intro exI [of _ "edited_post a fr3"] conjI) (rule tr tg)+
qed

text \<open>
  C1 as the claim states it fails: the set that is pushed can be empty. The post has no
  tags, the search client returns the tag \<open>cat\<close>, and the user removes \<open>cat\<close>: line 263
  tests the tags that were found, not the tags of the post, and the post is patched
  with no tags.
\<close>

theorem pushed_tag_set_can_be_empty:
  "filter is_patch (trace (step_state (loop_body example_env
       (example_args\<lparr>remove_tags := [''cat'']\<rparr>) None 1 0
       (example_post\<lparr>tags := []\<rparr>) example_state)))
   = [UpdatePost (example_post\<lparr>tags := [], source := ''https://pixiv.example/1''\<rparr>)]"
  by (simp add: model_defs example_defs is_patch_def)

lemma copyable_relation_tags_all:
  assumes "classifier_runs e t idx p st \<longrightarrow> only_copyable_relations e p"
  shows "copyable_relation_tags e t idx p st = relation_tags e t idx p st"
proof (cases "classifier_runs e t idx p st")
  case False
  then show ?thesis by (simp add: copyable_relation_tags_def relation_tags_def)
next
  case True
  then have "\<forall>r\<in>set (relations p). \<forall>tg\<in>set (getPost e r). copyable tg"
    using assms by (simp add: only_copyable_relations_def list_all_iff)
  then have "\<forall>r\<in>set (relations p). filter copyable (getPost e r) = getPost e r"
    by (simp add: filter_id_conv)
  then have "map (\<lambda>r. map primary_name (filter copyable (getPost e r))) (relations p)
             = map (\<lambda>r. map primary_name (getPost e r)) (relations p)"
    by (intro map_cong) simp_all
  then have "concat (map (\<lambda>r. map primary_name (filter copyable (getPost e r))) (relations p))
             = concat (map (\<lambda>r. map primary_name (getPost e r)) (relations p))"
    by (rule arg_cong)
  then show ?thesis using True by (simp only: copyable_relation_tags_def relation_tags_def if_True)
qed

text \<open>
  C1, amended: take an iteration that reaches the patch (a media file was fetched, that
  is the server is private or the classifier enabled, and the forced mode is on only
  with the classifier enabled) and in which the last discovery step that ran returned at
  least one tag. When the classifier runs, let the related posts hold no tag of category
  \<open>default\<close> or \<open>meta\<close>, and let \<open>deepbooru\<close> and \<open>tagme\<close> not both be among the merged
  tags. Then exactly one patch is sent, and its tag set is the union of the post's tags,
  the sanitized tags of the search client, the tags of the classifier, the tags of the
  related posts of a category other than \<open>default\<close> and \<open>meta\<close> (copied when the
  classifier runs) and the user's add-tags, minus the user's remove-tags, minus
  \<open>deepbooru\<close> and \<open>tagme\<close>. The set may be empty.
\<close>

theorem pushed_tag_set:
  assumes ok: "order_ok e"
    and media: "\<not> public (conf st) \<or> deepbooru_enabled (conf st)"
    and bound: "deepbooru_forced (conf st) \<longrightarrow> deepbooru_enabled (conf st)"
    and found: "last_found e t idx p st \<noteq> []"
    and rel: "classifier_runs e t idx p st \<longrightarrow> only_copyable_relations e p"
    and slip: "\<not> (''deepbooru'' \<in> (set (tags p) \<union> set (search_tags e t idx p st)
                     \<union> set (classifier_tags e t idx p st)
                     \<union> set (copyable_relation_tags e t idx p st)
                     \<union> set (add_tags a)) - set (remove_tags a)
                \<and> ''tagme'' \<in> (set (tags p) \<union> set (search_tags e t idx p st)
                     \<union> set (classifier_tags e t idx p st)
                     \<union> set (copyable_relation_tags e t idx p st)
                     \<union> set (add_tags a)) - set (remove_tags a))"
  shows "\<exists>q. filter is_patch (trace (step_state (loop_body e a t tot idx p st)))
               = filter is_patch (trace st) @ [UpdatePost q]
           \<and> set (tags q)
               = (set (tags p) \<union> set (search_tags e t idx p st)
                  \<union> set (classifier_tags e t idx p st)
                  \<union> set (copyable_relation_tags e t idx p st)
                  \<union> set (add_tags a)) - set (remove_tags a) - {''deepbooru'', ''tagme''}"
  using pushed_tags_with_relation_tags [OF ok media bound found, of a tot] slip
  unfolding copyable_relation_tags_all [OF rel] .

theorem pushed_tag_set_witness:
  "order_ok
         (example_env\<lparr>get_metadata := (\<lambda>idx pub url f. example_metadata\<lparr>found_tags := []\<rparr>),
                       tag_image := (\<lambda>idx f. ([''cat''], ''safe'')),
                       getPost := (\<lambda>i. [\<lparr>primary_name = ''artist_x'', category = ''artist''\<rparr>])\<rparr>)
   \<and> deepbooru_enabled (conf (example_state\<lparr>conf := example_config\<lparr>deepbooru_enabled := True\<rparr>\<rparr>))
   \<and> classifier_runs
         (example_env\<lparr>get_metadata := (\<lambda>idx pub url f. example_metadata\<lparr>found_tags := []\<rparr>),
                       tag_image := (\<lambda>idx f. ([''cat''], ''safe'')),
                       getPost := (\<lambda>i. [\<lparr>primary_name = ''artist_x'', category = ''artist''\<rparr>])\<rparr>)
         None 0 (example_post\<lparr>relations := [7]\<rparr>)
         (example_state\<lparr>conf := example_config\<lparr>deepbooru_enabled := True\<rparr>\<rparr>)
   \<and> only_copyable_relations
         (example_env\<lparr>get_metadata := (\<lambda>idx pub url f. example_metadata\<lparr>found_tags := []\<rparr>),
                       tag_image := (\<lambda>idx f. ([''cat''], ''safe'')),
                       getPost := (\<lambda>i. [\<lparr>primary_name = ''artist_x'', category = ''artist''\<rparr>])\<rparr>)
         (example_post\<lparr>relations := [7]\<rparr>)
   \<and> last_found
         (example_env\<lparr>get_metadata := (\<lambda>idx pub url f. example_metadata\<lparr>found_tags := []\<rparr>),
                       tag_image := (\<lambda>idx f. ([''cat''], ''safe'')),
                       getPost := (\<lambda>i. [\<lparr>primary_name = ''artist_x'', category = ''artist''\<rparr>])\<rparr>)
         None 0 (example_post\<lparr>relations := [7]\<rparr>)
         (example_state\<lparr>conf := example_config\<lparr>deepbooru_enabled := True\<rparr>\<rparr>) = [''cat'']
   \<and> tags (example_post\<lparr>relations := [7]\<rparr>) = [''tagme'', ''dog'']
   \<and> (\<exists>q. filter is_patch (trace (step_state (loop_body
                (example_env\<lparr>get_metadata := (\<lambda>idx pub url f. example_metadata\<lparr>found_tags := []\<rparr>),
                       tag_image := (\<lambda>idx f. ([''cat''], ''safe'')),
                       getPost := (\<lambda>i. [\<lparr>primary_name = ''artist_x'', category = ''artist''\<rparr>])\<rparr>)
                (example_args\<lparr>add_tags := [''nice''], remove_tags := [''dog'']\<rparr>)
                None 1 0 (example_post\<lparr>relations := [7]\<rparr>)
                (example_state\<lparr>conf := example_config\<lparr>deepbooru_enabled := True\<rparr>\<rparr>))))
             = [UpdatePost q]
           \<and> set (tags q) = {''cat'', ''artist_x'', ''nice''})"
proof -
  let ?e = "example_env\<lparr>get_metadata := (\<lambda>idx pub url f. example_metadata\<lparr>found_tags := []\<rparr>),
                       tag_image := (\<lambda>idx f. ([''cat''], ''safe'')),
                       getPost := (\<lambda>i. [\<lparr>primary_name = ''artist_x'', category = ''artist''\<rparr>])\<rparr>"
  let ?st = "example_state\<lparr>conf := example_config\<lparr>deepbooru_enabled := True\<rparr>\<rparr>"
  let ?p = "example_post\<lparr>relations := [7]\<rparr>"
  let ?a = "example_args\<lparr>add_tags := [''nice''], remove_tags := [''dog'']\<rparr>"
  have h1: "order_ok ?e" by (simp add: order_ok_def example_env_def)
  have h2: "deepbooru_enabled (conf ?st)" by (simp add: example_defs)
  have h3: "\<not> deepbooru_forced (conf ?st)" by (simp add: example_defs)
  have v1: "search_tags ?e None 0 ?p ?st = []"
    by (simp add: search_tags_def search_answer_def example_defs)
  have run: "classifier_runs ?e None 0 ?p ?st"
    using v1 h2 by (simp add: classifier_runs_def)
  have v2: "classifier_tags ?e None 0 ?p ?st = [''cat'']"
    using run by (simp add: classifier_tags_def example_env_def)
  have v5: "copyable_relation_tags ?e None 0 ?p ?st = [''artist_x'']"
    using run by (simp add: copyable_relation_tags_def copyable_def example_env_def)
  have h5: "only_copyable_relations ?e ?p"
    by (simp add: only_copyable_relations_def copyable_def example_env_def)
  have h4: "last_found ?e None 0 ?p ?st = [''cat'']"
    using run v2 by (simp add: last_found_def)
  have v3: "tags ?p = [''tagme'', ''dog'']" by (simp add: example_defs)
  have v4: "add_tags ?a = [''nice'']" "remove_tags ?a = [''dog'']" by simp_all
  have m: "(set (tags ?p) \<union> set (search_tags ?e None 0 ?p ?st)
            \<union> set (classifier_tags ?e None 0 ?p ?st)
            \<union> set (copyable_relation_tags ?e None 0 ?p ?st)
            \<union> set (add_tags ?a)) - set (remove_tags ?a)
           = {''tagme'', ''cat'', ''artist_x'', ''nice''}"
    unfolding v1 v2 v3 v4 v5 by (simp add: insert_Diff_if insert_commute)
  have g1: "\<not> public (conf ?st) \<or> deepbooru_enabled (conf ?st)" using h2 by simp
  have g2: "deepbooru_forced (conf ?st) \<longrightarrow> deepbooru_enabled (conf ?st)" using h3 by simp
  have g3: "last_found ?e None 0 ?p ?st \<noteq> []" using h4 by simp
  have g5: "classifier_runs ?e None 0 ?p ?st \<longrightarrow> only_copyable_relations ?e ?p"
    using h5 by simp
  have g4: "\<not> (''deepbooru'' \<in> (set (tags ?p) \<union> set (search_tags ?e None 0 ?p ?st)
            \<union> set (classifier_tags ?e None 0 ?p ?st)
            \<union> set (copyable_relation_tags ?e None 0 ?p ?st)
            \<union> set (add_tags ?a)) - set (remove_tags ?a)
         \<and> ''tagme'' \<in> (set (tags ?p) \<union> set (search_tags ?e None 0 ?p ?st)
            \<union> set (classifier_tags ?e None 0 ?p ?st)
            \<union> set (copyable_relation_tags ?e None 0 ?p ?st)
            \<union> set (add_tags ?a)) - set (remove_tags ?a))"
    unfolding m by simp
  have z: "trace ?st = []" by (simp add: example_defs)
  have fin: "{''tagme'', ''cat'', ''artist_x'', ''nice''} - {''deepbooru'', ''tagme''}
             = {''cat'', ''artist_x'', ''nice''}"
    by (simp add: insert_Diff_if)
  have r: "\<exists>q. filter is_patch (trace (step_state (loop_body ?e ?a None 1 0 ?p ?st)))
             = [UpdatePost q]
           \<and> set (tags q) = {''cat'', ''artist_x'', ''nice''}"
    using pushed_tag_set [OF h1 g1 g2 g3 g5 g4, of 1] unfolding m fin z by simp
  show ?thesis by (intro conjI) (rule h1 h2 run h5 h4 v3 r)+
qed

end
